theory Spec2Isabelle
  imports Complex_Main "HOL-Library.List_Lexorder"
begin

section \<open>Data model of \<open>echopype/process/process_base.py\<close>\<close>

text \<open>
  Array elements are real numbers: numpy's \<open>float64\<close> is idealised to \<open>real\<close>, so
  rounding, overflow, NaN and the infinities are outside the model. \<open>np.log10\<close> is
  \<open>log 10\<close> and \<open>10 ** x\<close> is \<open>10 powr x\<close>; the two agree with numpy (up to
  rounding) where the argument of the logarithm is positive.

  A labelled array with dimensions (frequency, ping_time, range_bin) is a nested list in
  that order. Python exceptions are values of \<open>error\<close>; a Python function that can
  raise returns \<open>error + 'a\<close> with \<open>Inl\<close> for the exception, and a Python \<open>None\<close>
  result is \<open>None\<close> of an option type.
\<close>

datatype error =
    ValueError string
  | KeyError string
  | TypeError string
  | IndexError string
  | AttributeError string
  | UnboundLocalError string

type_synonym arr3 = "real list list list"

text \<open>
  A parameter of \<open>env_params\<close> or \<open>cal_params\<close> is a scalar, an array over
  frequency, or an array over (frequency, ping_time). xarray broadcasts it by dimension
  name against the three-dimensional arrays; \<open>param_at p i j\<close> is the value it contributes
  to channel \<open>i\<close> and ping \<open>j\<close>.
\<close>

datatype param =
    Scalar real
  | PerChannel "real list"
  | PerChannelPing "real list list"

fun param_at :: "param \<Rightarrow> nat \<Rightarrow> nat \<Rightarrow> real" where
  "param_at (Scalar x) i j = x"
| "param_at (PerChannel xs) i j = xs ! i"
| "param_at (PerChannelPing xss) i j = xss ! i ! j"

type_synonym params = "string \<rightharpoonup> param"

text \<open>An xarray Dataset: its variables by name.\<close>

type_synonym dataset = "string \<rightharpoonup> arr3"

text \<open>The Vendor group of the raw file, as \<open>ed.get_vend_from_raw()\<close> returns it.\<close>

record vendor =
  vend_frequency :: "real list"
  vend_pulse_length :: "real list list"
  vend_sa_correction :: "real list list option"

text \<open>
  The \<open>EchoData\<close> object \<open>ed\<close>. The methods mutate it, so they take it and return
  it updated. \<open>files\<close> is what \<open>ed._save_dataset\<close> has written (path and dataset,
  oldest first) and \<open>stdout\<close> the lines printed so far. \<open>raw_environment\<close> is the
  Environment group of the raw file at \<open>ed.raw_path\<close>; the file is taken to be readable.
\<close>

record echodata =
  raw_frequency :: "real list"
  raw_backscatter_r :: arr3
  raw_transmit_duration_nominal :: "real list list"
  vend :: vendor
  raw_environment :: params
  range_arr :: "arr3 option"
  Sv :: "dataset option"
  Sp :: "dataset option"
  Sv_clean :: "dataset option"
  Sv_path :: "string option"
  Sp_path :: "string option"
  files :: "(string \<times> dataset) list"
  stdout :: "string list"

text \<open>
  Collaborators that are not part of \<open>process_base.py\<close>: the sonar-model specific
  \<open>calc_range\<close> of the subclass, \<open>io.validate_proc_path\<close>, the clock read by
  \<open>dt.now()\<close>, and the two kernels of \<open>utils.uwa\<close>.
\<close>

record collab =
  calc_range :: "echodata \<Rightarrow> params \<Rightarrow> params \<Rightarrow> error + arr3"
  validate_proc_path :: "echodata \<Rightarrow> string \<Rightarrow> string option \<Rightarrow> string"
  now :: string
  uwa_calc_sound_speed :: "param \<Rightarrow> param \<Rightarrow> param \<Rightarrow> string \<Rightarrow> error + param"
  uwa_calc_seawater_absorption ::
    "int list \<Rightarrow> param \<Rightarrow> param \<Rightarrow> param \<Rightarrow> string \<Rightarrow> error + param"

section \<open>Helpers for exceptions and array arithmetic\<close>

definition bind :: "error + 'a \<Rightarrow> ('a \<Rightarrow> error + 'b) \<Rightarrow> error + 'b" where
  "bind m f = (case m of Inl e \<Rightarrow> Inl e | Inr v \<Rightarrow> f v)"

text \<open>\<open>d[key]\<close> on a dict: KeyError when the key is absent.\<close>

definition getitem :: "params \<Rightarrow> string \<Rightarrow> error + param" where
  "getitem d key = (case d key of None \<Rightarrow> Inl (KeyError key) | Some v \<Rightarrow> Inr v)"

definition map3 :: "(real \<Rightarrow> real) \<Rightarrow> arr3 \<Rightarrow> arr3" where
  "map3 f a = map (map (map f)) a"

text \<open>
  A binary operation on two arrays of the same three dimensions. xarray aligns the
  operands on their shared index (an inner join), which for positional indices keeps the
  common prefix along every axis, as \<open>zip\<close> does.
\<close>

definition zip3 :: "(real \<Rightarrow> real \<Rightarrow> real) \<Rightarrow> arr3 \<Rightarrow> arr3 \<Rightarrow> arr3" where
  "zip3 f a b = map2 (map2 (map2 f)) a b"

text \<open>
  A binary operation on a three-dimensional array and a term over (frequency, ping_time),
  broadcast along range_bin.
\<close>

definition bcast3 :: "(real \<Rightarrow> real \<Rightarrow> real) \<Rightarrow> arr3 \<Rightarrow> (nat \<Rightarrow> nat \<Rightarrow> real) \<Rightarrow> arr3" where
  "bcast3 f a g =
     map (\<lambda>i. map (\<lambda>j. map (\<lambda>x. f x (g i j)) (a ! i ! j)) [0..<length (a ! i)])
       [0..<length a]"

section \<open>\<open>ProcessEK._cal_narrowband\<close>\<close>

text \<open>Line 211: \<open>ed.range.where(ed.range >= 1, other=1)\<close>.\<close>

definition where_ge_1 :: "real \<Rightarrow> real" where
  "where_ge_1 r = (if r \<ge> 1 then r else 1)"

definition spreading_loss :: "arr3 \<Rightarrow> arr3" where
  "spreading_loss rng = map3 (\<lambda>r. 20 * log 10 (where_ge_1 r)) rng"

text \<open>Line 212: \<open>2 * env_params['seawater_absorption'] * ed.range\<close>.\<close>

definition absorption_loss :: "param \<Rightarrow> arr3 \<Rightarrow> arr3" where
  "absorption_loss alpha rng = bcast3 (\<lambda>r a. 2 * a * r) rng (param_at alpha)"

text \<open>Line 205: \<open>env_params['speed_of_sound_in_water'] / ed.raw.frequency\<close>.\<close>

definition wavelength :: "param \<Rightarrow> real list \<Rightarrow> nat \<Rightarrow> nat \<Rightarrow> real" where
  "wavelength c freq i j = param_at c i j / freq ! i"

text \<open>Lines 217 to 223.\<close>

definition CSv :: "param \<Rightarrow> param \<Rightarrow> param \<Rightarrow> (nat \<Rightarrow> nat \<Rightarrow> real) \<Rightarrow> param \<Rightarrow> param
    \<Rightarrow> nat \<Rightarrow> nat \<Rightarrow> real" where
  "CSv tp g eba wl tdn c i j =
     10 * log 10 (param_at tp i j)
     + 2 * param_at g i j
     + param_at eba i j
     + 10 * log 10 ((wl i j)\<^sup>2 * param_at tdn i j * param_at c i j / (32 * pi\<^sup>2))"

text \<open>Lines 247 to 249.\<close>

definition CSp :: "param \<Rightarrow> param \<Rightarrow> (nat \<Rightarrow> nat \<Rightarrow> real) \<Rightarrow> nat \<Rightarrow> nat \<Rightarrow> real" where
  "CSp tp g wl i j =
     10 * log 10 (param_at tp i j)
     + 2 * param_at g i j
     + 10 * log 10 ((wl i j)\<^sup>2 / (16 * pi\<^sup>2))"

text \<open>
  Lines 236 to 243 and 260 to 267: with \<open>save\<close> the dataset goes to
  \<open>ed._save_dataset\<close> and the path is recorded, otherwise the dataset is stored in
  the attribute of \<open>ed\<close>. The file format handed to \<open>_save_dataset\<close> plays no part
  in what is computed and is left out.
\<close>

definition store_Sv :: "collab \<Rightarrow> echodata \<Rightarrow> dataset \<Rightarrow> bool \<Rightarrow> string option \<Rightarrow> echodata" where
  "store_Sv co ed ds save save_path =
     (if save then
        (let Sv_path' = validate_proc_path co ed ''_Sv'' save_path in
         ed\<lparr>stdout := stdout ed @ [now co @ ''  saving calibrated Sv to '' @ Sv_path'],
            files := files ed @ [(Sv_path', ds)],
            Sv_path := Some Sv_path'\<rparr>)
      else ed\<lparr>Sv := Some ds\<rparr>)"

definition store_Sp :: "collab \<Rightarrow> echodata \<Rightarrow> dataset \<Rightarrow> bool \<Rightarrow> string option \<Rightarrow> echodata" where
  "store_Sp co ed ds save save_path =
     (if save then
        (let Sp_path' = validate_proc_path co ed ''_Sp'' save_path in
         ed\<lparr>stdout := stdout ed @ [now co @ ''  saving calibrated Sp to '' @ Sp_path'],
            files := files ed @ [(Sp_path', ds)],
            Sp_path := Some Sp_path'\<rparr>)
      else ed\<lparr>Sp := Some ds\<rparr>)"

text \<open>
  Lines 206 to 208: the range is computed once and cached on \<open>ed\<close>. The result is
  the updated \<open>ed\<close> together with the range.
\<close>

definition ensure_range :: "collab \<Rightarrow> echodata \<Rightarrow> params \<Rightarrow> params \<Rightarrow> error + echodata \<times> arr3" where
  "ensure_range co ed env_params cal_params =
     (case range_arr ed of
        Some rng \<Rightarrow> Inr (ed, rng)
      | None \<Rightarrow>
          bind (calc_range co ed env_params cal_params)
            (\<lambda>rng. Inr (ed\<lparr>range_arr := Some rng\<rparr>, rng)))"

text \<open>Line 226, with the operands in the order Python evaluates them.\<close>

definition Sv_array ::
  "arr3 \<Rightarrow> arr3 \<Rightarrow> arr3 \<Rightarrow> (nat \<Rightarrow> nat \<Rightarrow> real) \<Rightarrow> param \<Rightarrow> arr3" where
  "Sv_array backscatter_r sl al csv sa =
     bcast3 (-)
       (bcast3 (-) (zip3 (+) (zip3 (+) backscatter_r sl) al) csv)
       (\<lambda>i j. 2 * param_at sa i j)"

text \<open>Line 252.\<close>

definition Sp_array :: "arr3 \<Rightarrow> arr3 \<Rightarrow> arr3 \<Rightarrow> (nat \<Rightarrow> nat \<Rightarrow> real) \<Rightarrow> arr3" where
  "Sp_array backscatter_r sl al csp =
     bcast3 (-) (zip3 (+) (zip3 (+) backscatter_r (map3 (\<lambda>x. x * 2) sl)) al) csp"

text \<open>
  The method returns nothing: its product is the updated \<open>ed\<close>. A \<open>cal_type\<close> that
  is neither \<open>Sv\<close> nor \<open>Sp\<close> falls through both branches. Dict lookups happen in the
  order of the source, so the first missing key is the one reported. The transpose of
  lines 232 and 258 puts the dimensions in the order the model already has.
\<close>

definition cal_narrowband ::
  "collab \<Rightarrow> echodata \<Rightarrow> params \<Rightarrow> params \<Rightarrow> string \<Rightarrow> bool \<Rightarrow> string option \<Rightarrow> error + echodata" where
  "cal_narrowband co ed env_params cal_params cal_type save save_path =
     bind (getitem env_params ''speed_of_sound_in_water'') (\<lambda>c.
     let wl = wavelength c (raw_frequency ed) in
     bind (ensure_range co ed env_params cal_params) (\<lambda>(ed1, rng).
     let sl = spreading_loss rng in
     bind (getitem env_params ''seawater_absorption'') (\<lambda>alpha.
     let al = absorption_loss alpha rng in
     if cal_type = ''Sv'' then
       bind (getitem cal_params ''transmit_power'') (\<lambda>tp.
       bind (getitem cal_params ''gain_correction'') (\<lambda>g.
       bind (getitem cal_params ''equivalent_beam_angle'') (\<lambda>eba.
       bind (getitem cal_params ''transmit_duration_nominal'') (\<lambda>tdn.
       bind (getitem env_params ''speed_of_sound_in_water'') (\<lambda>c'.
       bind (getitem cal_params ''sa_correction'') (\<lambda>sa.
       let Sv' = Sv_array (raw_backscatter_r ed1) sl al (CSv tp g eba wl tdn c') sa;
           ds = [''Sv'' \<mapsto> Sv', ''range'' \<mapsto> rng]
       in Inr (store_Sv co ed1 ds save save_path)))))))
     else if cal_type = ''Sp'' then
       bind (getitem cal_params ''transmit_power'') (\<lambda>tp.
       bind (getitem cal_params ''gain_correction'') (\<lambda>g.
       let Sp' = Sp_array (raw_backscatter_r ed1) sl al (CSp tp g wl);
           ds = [''Sp'' \<mapsto> Sp', ''range'' \<mapsto> rng]
       in Inr (store_Sp co ed1 ds save save_path)))
     else Inr ed1)))"

section \<open>\<open>ProcessBase.calc_sound_speed\<close> and \<open>ProcessBase.calc_seawater_absorption\<close>\<close>

text \<open>
  Lines 14 to 32. The two \<open>ValueError(...)\<close> expressions of lines 22 and 32 build an
  exception and drop it: there is no \<open>raise\<close>, so control reaches the end of the
  method and the result is \<open>None\<close>.
\<close>

definition calc_sound_speed ::
  "collab \<Rightarrow> echodata \<Rightarrow> params option \<Rightarrow> string \<Rightarrow> string \<Rightarrow> error + param option" where
  "calc_sound_speed co ed env_params src formula_source =
     (if src = ''file'' then
        (case raw_environment ed ''sound_speed_indicative'' of
           Some v \<Rightarrow> Inr (Some v)
         | None \<Rightarrow> Inr None)
      else if src = ''user'' then
        (case env_params of
           None \<Rightarrow> Inl (ValueError ''`env_params` required for calculating sound speed'')
         | Some env \<Rightarrow>
             bind (getitem env ''water_salinity'') (\<lambda>salinity.
             bind (getitem env ''water_temperature'') (\<lambda>temperature.
             bind (getitem env ''water_pressure'') (\<lambda>pressure.
             bind (uwa_calc_sound_speed co salinity temperature pressure formula_source)
               (\<lambda>ss. Inr (Some ss))))))
      else Inr None)"

text \<open>\<open>astype(np.int64)\<close> on a float truncates towards zero.\<close>

definition astype_int64 :: "real \<Rightarrow> int" where
  "astype_int64 x = (if x \<ge> 0 then \<lfloor>x\<rfloor> else \<lceil>x\<rceil>)"

text \<open>The message of line 38: \<^verbatim>\<open>'src' can only be 'user'\<close>.\<close>

definition src_can_only_be_user :: string where
  "src_can_only_be_user =
     [CHR 0x27] @ ''src'' @ [CHR 0x27] @ '' can only be '' @ [CHR 0x27] @ ''user'' @ [CHR 0x27]"

text \<open>Lines 34 to 44.\<close>

definition calc_seawater_absorption ::
  "collab \<Rightarrow> echodata \<Rightarrow> params \<Rightarrow> string \<Rightarrow> string \<Rightarrow> error + param" where
  "calc_seawater_absorption co ed env_params src formula_source =
     (if src \<noteq> ''user'' then Inl (ValueError src_can_only_be_user)
      else
        (let freq = map astype_int64 (raw_frequency ed) in
         bind (getitem env_params ''water_temperature'') (\<lambda>temperature.
         bind (getitem env_params ''water_salinity'') (\<lambda>salinity.
         bind (getitem env_params ''water_pressure'') (\<lambda>pressure.
         uwa_calc_seawater_absorption co freq temperature salinity pressure formula_source)))))"

section \<open>\<open>ProcessBase._get_tile_params\<close> and \<open>ProcessBase.get_MVBS\<close>\<close>

text \<open>
  \<open>proc_params\<close>, with every key the two methods read: a value that is \<open>None\<close> in
  the dict is \<open>None\<close> here, and a dict that lacks one of the keys (a KeyError) is
  outside the model. The tile sizes are Python integers.
\<close>

record proc_params =
  MVBS_source :: string
  MVBS_type :: string
  MVBS_time_interval :: "real option"
  MVBS_ping_num :: "int option"
  MVBS_distance_interval :: "real option"
  MVBS_range_interval :: "real option"
  MVBS_range_bin_num :: "int option"

text \<open>
  Lines 71 to 95. The result is the lines printed and then either the exception raised or
  the value returned, where a bare \<open>return\<close> gives \<open>None\<close>.
\<close>

definition get_tile_params :: "proc_params \<Rightarrow> string list \<times> (error + (int \<times> int) option)" where
  "get_tile_params pp =
     (if MVBS_time_interval pp \<noteq> None then
        ([''Averaging by time interval is not yet implemented''], Inr None)
      else
        (case MVBS_ping_num pp of
           None \<Rightarrow> ([], Inl (ValueError ''No ping tile size provided''))
         | Some pings_per_tile \<Rightarrow>
             if MVBS_distance_interval pp \<noteq> None then
               ([''Averaging by distance interval is not yet implemented''], Inr None)
             else if MVBS_range_interval pp \<noteq> None then
               ([''Averaging by range inteval is not yet implemented''], Inr None)
             else
               (case MVBS_range_bin_num pp of
                  None \<Rightarrow> ([], Inl (ValueError ''No range_bin tile size provided''))
                | Some range_bins_per_tile \<Rightarrow>
                    ([], Inr (Some (pings_per_tile, range_bins_per_tile))))))"

text \<open>
  \<open>getattr(getattr(ed, name), name)\<close> of line 124: the dataset held by \<open>ed\<close> under
  the name, then its variable of the same name.
\<close>

definition getattr_ed :: "echodata \<Rightarrow> string \<Rightarrow> dataset option" where
  "getattr_ed ed name = (if name = ''Sv'' then Sv ed else Sv_clean ed)"

definition get_source :: "echodata \<Rightarrow> string \<Rightarrow> error + arr3" where
  "get_source ed name =
     (case getattr_ed ed name of
        None \<Rightarrow> Inl (AttributeError name)
      | Some ds \<Rightarrow> (case ds name of None \<Rightarrow> Inl (AttributeError name) | Some a \<Rightarrow> Inr a))"

subsection \<open>xarray's \<open>coarsen(..., boundary='pad').mean()\<close>\<close>

text \<open>
  xarray pads each coarsened axis at its end with NaN up to the next multiple of the
  window, reshapes the padded array into blocks of the window's size and reduces each
  block with a mean that skips NaN. A padded cell is \<open>None\<close> here. A window that is not
  positive is rejected with a ValueError.
\<close>

definition pad_width :: "nat \<Rightarrow> nat \<Rightarrow> nat" where
  "pad_width window sz =
     (let n = int sz div int window;
          pad = int window * n - int sz
      in nat (if pad < 0 then pad + int window else pad))"

definition pad_nan :: "nat \<Rightarrow> nat \<Rightarrow> real list list \<Rightarrow> real option list list" where
  "pad_nan pw rw m =
     (let rows = map (\<lambda>row. map Some row @ replicate (pad_width rw (length row)) None) m;
          width = (case rows of [] \<Rightarrow> 0 | row # _ \<Rightarrow> length row)
      in rows @ replicate (pad_width pw (length m)) (replicate width None))"

fun somes :: "'a option list \<Rightarrow> 'a list" where
  "somes [] = []"
| "somes (None # xs) = somes xs"
| "somes (Some x # xs) = x # somes xs"

definition mean :: "real list \<Rightarrow> real" where
  "mean xs = sum_list xs / real (length xs)"

definition nanmean :: "real option list \<Rightarrow> real" where
  "nanmean xs = mean (somes xs)"

text \<open>
  The reshaped block \<open>(tp, tr)\<close> of a padded matrix holds the cells
  \<open>(tp * pw + a, tr * rw + b)\<close> for \<open>a < pw\<close> and \<open>b < rw\<close>.
\<close>

definition block :: "nat \<Rightarrow> nat \<Rightarrow> 'a list list \<Rightarrow> nat \<Rightarrow> nat \<Rightarrow> 'a list" where
  "block pw rw m tp tr =
     concat (map (\<lambda>a. map (\<lambda>b. m ! (tp * pw + a) ! (tr * rw + b)) [0..<rw]) [0..<pw])"

definition coarsen_mean_2d :: "nat \<Rightarrow> nat \<Rightarrow> real list list \<Rightarrow> real list list" where
  "coarsen_mean_2d pw rw m =
     (let padded = pad_nan pw rw m;
          width = (case padded of [] \<Rightarrow> 0 | row # _ \<Rightarrow> length row)
      in map (\<lambda>tp. map (\<lambda>tr. nanmean (block pw rw padded tp tr)) [0..<width div rw])
           [0..<length padded div pw])"

definition coarsen_mean :: "int \<Rightarrow> int \<Rightarrow> arr3 \<Rightarrow> error + arr3" where
  "coarsen_mean ping_time range_bin a =
     (if ping_time \<le> 0 \<or> range_bin \<le> 0 then Inl (ValueError ''window must be > 0'')
      else Inr (map (coarsen_mean_2d (nat ping_time) (nat range_bin)) a))"

text \<open>
  Lines 123 to 140. The method reads \<open>ed\<close> and \<open>proc_params\<close> only: its other
  arguments are handed to \<open>_get_tile_params\<close>, which ignores them, or are not used.
  \<open>np.unique\<close> of the integer \<open>range_bins_per_tile\<close> has one
  element, so the test of line 131 holds. Unpacking the \<open>None\<close> that
  \<open>_get_tile_params\<close> returns for an interval-based tiling is a TypeError, and
  \<open>return MVBS\<close> without an assignment to \<open>MVBS\<close> is an UnboundLocalError.
\<close>

definition get_MVBS :: "echodata \<Rightarrow> proc_params \<Rightarrow> string list \<times> (error + arr3)" where
  "get_MVBS ed pp =
     (if MVBS_source pp = ''Sv'' \<or> MVBS_source pp = ''Sv_clean'' then
        (case get_source ed (MVBS_source pp) of
           Inl e \<Rightarrow> ([], Inl e)
         | Inr src \<Rightarrow>
             (let Sv_linear = map3 (\<lambda>x. 10 powr (x / 10)) src;
                  (out, tiles) = get_tile_params pp
              in (out,
                  case tiles of
                    Inl e \<Rightarrow> Inl e
                  | Inr None \<Rightarrow> Inl (TypeError ''cannot unpack non-iterable NoneType object'')
                  | Inr (Some (pings_per_tile, range_bins_per_tile)) \<Rightarrow>
                      if MVBS_type pp = ''binned'' then
                        bind (coarsen_mean pings_per_tile range_bins_per_tile Sv_linear)
                          (\<lambda>m. Inr (map3 (\<lambda>x. 10 * log 10 x) m))
                      else if MVBS_type pp = ''rolling'' then
                        Inl (UnboundLocalError ''MVBS'')
                      else Inl (ValueError ''MVBS_type must be either binned or rolling''))))
      else ([], Inl (ValueError ''MVBS_source must be either Sv or Sv_clean'')))"

section \<open>\<open>ProcessBase.remove_noise\<close>\<close>

text \<open>
  Lines 142 to 148: the body of the method is its docstring. It computes nothing, leaves
  \<open>ed\<close> as it is and returns \<open>None\<close>.
\<close>

definition remove_noise :: "echodata \<Rightarrow> proc_params \<Rightarrow> bool \<Rightarrow> string \<Rightarrow> echodata \<times> dataset option" where
  "remove_noise ed pp save save_format = (ed, None)"

section \<open>\<open>ProcessEK.calc_sa_correction\<close>\<close>

subsection \<open>The numpy and xarray operations it calls\<close>

text \<open>
  \<open>np.unique(a, axis=1)\<close> of a two-dimensional array: its distinct columns in
  lexicographic order. The result has as many rows as \<open>a\<close> and one column for each
  element of the list returned here.
\<close>

definition columns :: "real list list \<Rightarrow> real list list" where
  "columns a = (case a of [] \<Rightarrow> [] | row # _ \<Rightarrow> map (\<lambda>j. map (\<lambda>r. r ! j) a) [0..<length row])"

definition np_unique_axis1 :: "real list list \<Rightarrow> real list list" where
  "np_unique_axis1 a = sort (remdups (columns a))"

text \<open>
  \<open>squeeze()\<close> drops the axes of length one: an array of shape \<open>(n, k)\<close>, given by its
  \<open>k\<close> columns, becomes a scalar array, a vector or stays a matrix.
\<close>

datatype ndarray = A0 real | A1 "real list" | A2 "real list list"

definition squeeze_cols :: "nat \<Rightarrow> real list list \<Rightarrow> ndarray" where
  "squeeze_cols n cols =
     (let k = length cols;
          rows = map (\<lambda>i. map (\<lambda>c. c ! i) cols) [0..<n]
      in if n = 1 \<and> k = 1 then A0 (cols ! 0 ! 0)
         else if n = 1 then A1 (rows ! 0)
         else if k = 1 then A1 (cols ! 0)
         else A2 rows)"

text \<open>\<open>a[i]\<close>: a zero-dimensional array cannot be indexed.\<close>

datatype elem = E0 real | E1 "real list"

definition nd_index :: "ndarray \<Rightarrow> nat \<Rightarrow> error + elem" where
  "nd_index a i =
     (case a of
        A0 _ \<Rightarrow> Inl (IndexError ''too many indices for array'')
      | A1 xs \<Rightarrow> if i < length xs then Inr (E0 (xs ! i)) else Inl (IndexError ''index out of bounds'')
      | A2 rows \<Rightarrow>
          if i < length rows then Inr (E1 (rows ! i)) else Inl (IndexError ''index out of bounds''))"

text \<open>
  \<open>np.isclose(a, b)\<close> with the default tolerances \<open>rtol = 1e-05\<close> and
  \<open>atol = 1e-08\<close>: \<open>|a - b| <= atol + rtol * |b|\<close>.
\<close>

definition isclose :: "real \<Rightarrow> real \<Rightarrow> bool" where
  "isclose a b \<longleftrightarrow> \<bar>a - b\<bar> \<le> 1 / 10 ^ 8 + 1 / 10 ^ 5 * \<bar>b\<bar>"

definition np_isclose :: "elem \<Rightarrow> real list \<Rightarrow> error + bool list" where
  "np_isclose u row =
     (case u of
        E0 v \<Rightarrow> Inr (map (isclose v) row)
      | E1 vs \<Rightarrow>
          if length vs = length row then Inr (map2 isclose vs row)
          else if length vs = 1 then Inr (map (isclose (vs ! 0)) row)
          else if length row = 1 then Inr (map (\<lambda>v. isclose v (row ! 0)) vs)
          else Inl (ValueError ''operands could not be broadcast together''))"

text \<open>
  \<open>np.argwhere(b).squeeze()\<close> of a boolean vector: the positions that hold True, as a
  zero-dimensional array when there is exactly one and as a vector otherwise.
\<close>

datatype index = I0 nat | I1 "nat list"

definition argwhere :: "bool list \<Rightarrow> nat list" where
  "argwhere b = filter (\<lambda>j. b ! j) [0..<length b]"

definition squeeze_index :: "nat list \<Rightarrow> index" where
  "squeeze_index js = (case js of [j] \<Rightarrow> I0 j | _ \<Rightarrow> I1 js)"

text \<open>\<open>ch[x]\<close> for a row \<open>ch\<close> of the correction table.\<close>

datatype sel = S0 real | S1 "real list"

definition take_index :: "real list \<Rightarrow> index \<Rightarrow> error + sel" where
  "take_index ch x =
     (case x of
        I0 j \<Rightarrow> if j < length ch then Inr (S0 (ch ! j)) else Inl (IndexError ''index out of bounds'')
      | I1 js \<Rightarrow>
          if list_all (\<lambda>j. j < length ch) js then Inr (S1 (map (\<lambda>j. ch ! j) js))
          else Inl (IndexError ''index out of bounds''))"

text \<open>
  \<open>np.array(xs)\<close> of a list of arrays. When all have the same shape the result is a
  regular array one dimension higher. When they do not, numpy from 1.24 on raises a
  ValueError, and numpy before 1.24 builds a one-dimensional array of objects. The numpy in
  use is not part of the source, so the flag \<open>ragged_ok\<close> says which of the two it does.
\<close>

fun index_shape :: "index \<Rightarrow> nat option" where
  "index_shape (I0 _) = None"
| "index_shape (I1 js) = Some (length js)"

fun sel_shape :: "sel \<Rightarrow> nat option" where
  "sel_shape (S0 _) = None"
| "sel_shape (S1 vs) = Some (length vs)"

definition homogeneous :: "('a \<Rightarrow> nat option) \<Rightarrow> 'a list \<Rightarrow> bool" where
  "homogeneous shape xs = (case xs of [] \<Rightarrow> True | x # _ \<Rightarrow> list_all (\<lambda>y. shape y = shape x) xs)"

definition np_array :: "bool \<Rightarrow> ('a \<Rightarrow> nat option) \<Rightarrow> 'a list \<Rightarrow> error + 'a list" where
  "np_array ragged_ok shape xs =
     (if homogeneous shape xs \<or> ragged_ok then Inr xs
      else Inl (ValueError ''setting an array element with a sequence''))"

text \<open>
  \<open>xr.DataArray(data, dims='frequency')\<close> takes one-dimensional data: a regular array of
  vectors has two dimensions and is refused. \<open>assign_coords\<close> needs a coordinate as long
  as the data.
\<close>

definition xr_DataArray :: "sel list \<Rightarrow> error + sel list" where
  "xr_DataArray data =
     (case data of
        S1 vs # _ \<Rightarrow>
          if homogeneous sel_shape data
          then Inl (ValueError ''different number of dimensions on data and dims: 2 vs 1'')
          else Inr data
      | _ \<Rightarrow> Inr data)"

definition assign_coords :: "sel list \<Rightarrow> real list \<Rightarrow> error + sel list" where
  "assign_coords da frequency =
     (if length da = length frequency then Inr da
      else Inl (ValueError ''conflicting sizes for dimension frequency''))"

text \<open>A list comprehension whose body can raise stops at the first exception.\<close>

fun mapM :: "('a \<Rightarrow> error + 'b) \<Rightarrow> 'a list \<Rightarrow> error + 'b list" where
  "mapM f [] = Inr []"
| "mapM f (x # xs) = bind (f x) (\<lambda>y. bind (mapM f xs) (\<lambda>ys. Inr (y # ys)))"

subsection \<open>The method\<close>

text \<open>
  Lines 175 to 192. The result is the per-channel selection with the frequency coordinate
  of the correction table; a channel whose selection is a scalar contributes \<open>S0\<close>.
  The source tests neither the number of channels nor the number of matches: what
  happens with one channel, or with a channel that has no match or several, is what the
  numpy and xarray operations above do with the shapes they are given.
\<close>

definition match_index :: "ndarray \<Rightarrow> real list list \<Rightarrow> nat \<Rightarrow> error + index" where
  "match_index unique_pulse_length pulse_length_table i =
     bind (nd_index unique_pulse_length i) (\<lambda>u.
     bind (np_isclose u (pulse_length_table ! i)) (\<lambda>b.
     Inr (squeeze_index (argwhere b))))"

definition calc_sa_correction :: "bool \<Rightarrow> echodata \<Rightarrow> error + sel list" where
  "calc_sa_correction ragged_ok ed =
     (let ds_vend = vend ed in
      case vend_sa_correction ds_vend of
        None \<Rightarrow> Inl (ValueError ''sa_correction not found in raw data!'')
      | Some sa_correction_table \<Rightarrow>
          (let pulse_length_table = vend_pulse_length ds_vend;
               tdn = raw_transmit_duration_nominal ed;
               cols = np_unique_axis1 tdn;
               unique_pulse_length = squeeze_cols (length tdn) cols
           in if length tdn * length cols \<noteq> length (vend_frequency ds_vend)
              then Inl (ValueError ''Pulse length changes over time'')
              else
                bind (mapM (match_index unique_pulse_length pulse_length_table)
                        [0..<length pulse_length_table]) (\<lambda>idx.
                bind (np_array ragged_ok index_shape idx) (\<lambda>idx_arr.
                bind (mapM (\<lambda>(ch, x). take_index ch x) (zip sa_correction_table idx_arr))
                  (\<lambda>sels.
                bind (np_array ragged_ok sel_shape sels) (\<lambda>sa_correction.
                bind (xr_DataArray sa_correction) (\<lambda>da.
                assign_coords da (vend_frequency ds_vend))))))))"

section \<open>The formulas of the specification\<close>

text \<open>
  The definitions of this section follow the wording of the specification, one sample at a
  time. The theorems below compare them with what the methods compute.
\<close>

definition spec_wavelength :: "real \<Rightarrow> real \<Rightarrow> real" where
  "spec_wavelength speed_of_sound frequency = speed_of_sound / frequency"

definition spec_spreading_loss :: "real \<Rightarrow> real" where
  "spec_spreading_loss r = 20 * log 10 (max r 1)"

definition spec_absorption_loss :: "real \<Rightarrow> real \<Rightarrow> real" where
  "spec_absorption_loss seawater_absorption r = 2 * seawater_absorption * r"

definition spec_gain_Sv :: "real \<Rightarrow> real \<Rightarrow> real \<Rightarrow> real \<Rightarrow> real \<Rightarrow> real \<Rightarrow> real" where
  "spec_gain_Sv transmit_power gain_correction equivalent_beam_angle wl
       transmit_duration_nominal speed_of_sound =
     10 * log 10 transmit_power + 2 * gain_correction + equivalent_beam_angle
     + 10 * log 10 (wl\<^sup>2 * transmit_duration_nominal * speed_of_sound / (32 * pi\<^sup>2))"

definition spec_Sv :: "real \<Rightarrow> real \<Rightarrow> real \<Rightarrow> real \<Rightarrow> real \<Rightarrow> real" where
  "spec_Sv raw_power sl al gain_term sa_correction =
     raw_power + sl + al - gain_term - 2 * sa_correction"

definition spec_gain_Sp :: "real \<Rightarrow> real \<Rightarrow> real \<Rightarrow> real" where
  "spec_gain_Sp transmit_power gain_correction wl =
     10 * log 10 transmit_power + 2 * gain_correction + 10 * log 10 (wl\<^sup>2 / (16 * pi\<^sup>2))"

definition spec_Sp :: "real \<Rightarrow> real \<Rightarrow> real \<Rightarrow> real \<Rightarrow> real" where
  "spec_Sp raw_power sl al gain_term = raw_power + 2 * sl + al - gain_term"

text \<open>The shape of a three-dimensional array: the lengths of its innermost lists.\<close>

definition shape3 :: "arr3 \<Rightarrow> nat list list" where
  "shape3 a = map (map length) a"

text \<open>
  The samples of tile \<open>(tp, tr)\<close> of a matrix of \<open>P\<close> pings by \<open>R\<close> range bins: pings
  \<open>tp * pw\<close> up to \<open>(tp + 1) * pw\<close> and bins \<open>tr * rw\<close> up to \<open>(tr + 1) * rw\<close>, cut
  at the end of each axis. \<open>spec_MVBS\<close> is the mean of a tile in the linear domain,
  returned in dB.
\<close>

definition tile_samples :: "real list list \<Rightarrow> nat \<Rightarrow> nat \<Rightarrow> nat \<Rightarrow> nat \<Rightarrow> nat \<Rightarrow> nat \<Rightarrow> real list" where
  "tile_samples m P R pw rw tp tr =
     concat (map (\<lambda>j. map (\<lambda>k. m ! j ! k) [tr * rw..<min ((tr + 1) * rw) R])
       [tp * pw..<min ((tp + 1) * pw) P])"

definition spec_MVBS :: "real list \<Rightarrow> real" where
  "spec_MVBS dBs = 10 * log 10 (mean (map (\<lambda>dB. 10 powr (dB / 10)) dBs))"

definition tiles :: "nat \<Rightarrow> nat \<Rightarrow> nat" where
  "tiles extent window = (extent + window - 1) div window"

text \<open>
  The table entries of channel \<open>i\<close> that are close to the pulse length \<open>u\<close>
  transmitted on that channel.
\<close>

definition matches :: "real \<Rightarrow> real list \<Rightarrow> nat list" where
  "matches u row = argwhere (map (isclose u) row)"

text \<open>
  How a calibration call hands over its dataset: with \<open>save\<close> it is the last file
  written and its path is recorded on \<open>ed\<close>, otherwise it is the attribute of \<open>ed\<close>
  named after the product.
\<close>

definition delivered :: "string \<Rightarrow> bool \<Rightarrow> echodata \<Rightarrow> echodata \<Rightarrow> dataset \<Rightarrow> bool" where
  "delivered cal_type save ed ed' ds \<longleftrightarrow>
     (if save then \<exists>path. files ed' = files ed @ [(path, ds)]
        \<and> (if cal_type = ''Sv'' then Sv_path ed' else Sp_path ed') = Some path
      else (if cal_type = ''Sv'' then Sv ed' else Sp ed') = Some ds)"

section \<open>Concrete inputs\<close>

text \<open>
  The end-to-end scenario of the specification: one channel at 38 kHz, one ping, one
  sample of -60 dB at a range of 50 m.
\<close>

definition scenario_co :: collab where
  "scenario_co = \<lparr>calc_range = (\<lambda>ed env cal. Inr (map3 (\<lambda>x. 50) (raw_backscatter_r ed))),
     validate_proc_path = (\<lambda>ed suffix save_path. ''out'' @ suffix),
     now = ''12:00:00'',
     uwa_calc_sound_speed = (\<lambda>salinity temperature pressure formula_source. Inr (Scalar 1500)),
     uwa_calc_seawater_absorption =
       (\<lambda>freq temperature salinity pressure formula_source. Inr (PerChannel [1 / 100]))\<rparr>"

definition scenario_ed :: echodata where
  "scenario_ed = \<lparr>raw_frequency = [38000], raw_backscatter_r = [[[- 60]]],
     raw_transmit_duration_nominal = [[1 / 1000]],
     vend = \<lparr>vend_frequency = [38000], vend_pulse_length = [[1 / 1000]],
             vend_sa_correction = Some [[0]]\<rparr>,
     raw_environment = Map.empty, range_arr = Some [[[50]]], Sv = None, Sp = None,
     Sv_clean = None, Sv_path = None, Sp_path = None, files = [], stdout = []\<rparr>"

definition scenario_env :: params where
  "scenario_env = [''speed_of_sound_in_water'' \<mapsto> Scalar 1500,
                   ''seawater_absorption'' \<mapsto> PerChannel [1 / 100]]"

definition scenario_cal :: params where
  "scenario_cal = [''transmit_power'' \<mapsto> Scalar 1000,
                   ''gain_correction'' \<mapsto> PerChannel [20],
                   ''equivalent_beam_angle'' \<mapsto> PerChannel [- 20],
                   ''transmit_duration_nominal'' \<mapsto> Scalar (1 / 1000),
                   ''sa_correction'' \<mapsto> PerChannel [0]]"

text \<open>A raw file whose Environment group stores a sound speed.\<close>

definition file_ed :: echodata where
  "file_ed = scenario_ed\<lparr>raw_environment := [''sound_speed_indicative'' \<mapsto> Scalar 1480]\<rparr>"

text \<open>
  The aggregation scenario of the specification: one channel of 4 pings by 4 range bins,
  held by \<open>ed\<close> as its calibrated \<open>Sv\<close>, and tiles of 2 pings by 2 range bins.
\<close>

definition sv44 :: arr3 where
  "sv44 = [[[0, 10, 20, 20], [10, 0, 20, 20], [0, 0, 10, 10], [0, 0, 10, 10]]]"

definition mvbs_ed :: echodata where
  "mvbs_ed = scenario_ed\<lparr>Sv := Some [''Sv'' \<mapsto> sv44]\<rparr>"

definition pp_binned :: proc_params where
  "pp_binned = \<lparr>MVBS_source = ''Sv'', MVBS_type = ''binned'', MVBS_time_interval = None,
     MVBS_ping_num = Some 2, MVBS_distance_interval = None, MVBS_range_interval = None,
     MVBS_range_bin_num = Some 2\<rparr>"

text \<open>
  Two channels for the correction-table resolver, with the numbers of the specification's
  test: channel 0 transmits 100.0000001 against the table entries 100 and 300, channel 1
  transmits 200 against 200 and 400.
\<close>

definition sa_vend :: vendor where
  "sa_vend = \<lparr>vend_frequency = [38000, 120000],
     vend_pulse_length = [[100, 300], [200, 400]],
     vend_sa_correction = Some [[1, 3], [2, 4]]\<rparr>"

definition sa_ed :: echodata where
  "sa_ed = scenario_ed\<lparr>raw_frequency := [38000, 120000],
     raw_backscatter_r := [[[- 60], [- 60]], [[- 70], [- 70]]],
     raw_transmit_duration_nominal := [[100 + 1 / 10 ^ 7, 100 + 1 / 10 ^ 7], [200, 200]],
     vend := sa_vend\<rparr>"

text \<open>The same with a pulse length that changes on channel 1.\<close>

definition varying_ed :: echodata where
  "varying_ed = sa_ed\<lparr>raw_transmit_duration_nominal :=
     [[100 + 1 / 10 ^ 7, 100 + 1 / 10 ^ 7], [200, 400]]\<rparr>"

text \<open>The same with a table whose channel 1 has two entries close to 200.\<close>

definition ambiguous_ed :: echodata where
  "ambiguous_ed = sa_ed\<lparr>vend := sa_vend\<lparr>vend_pulse_length :=
     [[100, 300], [200, 200 + 1 / 10 ^ 4]]\<rparr>\<rparr>"

section \<open>Helper lemmas\<close>

lemma bind_Inr [simp]: "bind (Inr v) f = f v"
  by (simp add: bind_def)

lemma bind_Inl [simp]: "bind (Inl e) f = Inl e"
  by (simp add: bind_def)

lemma getitem_Some [simp]: "d key = Some v \<Longrightarrow> getitem d key = Inr v"
  by (simp add: getitem_def)

lemma getitem_None [simp]: "d key = None \<Longrightarrow> getitem d key = Inl (KeyError key)"
  by (simp add: getitem_def)

lemma bind_eq_Inr: "bind m f = Inr y \<longleftrightarrow> (\<exists>v. m = Inr v \<and> f v = Inr y)"
  by (cases m) (simp_all add: bind_def)

lemma bind_eq_Inl: "bind m f = Inl e \<longleftrightarrow> m = Inl e \<or> (\<exists>v. m = Inr v \<and> f v = Inl e)"
  by (cases m) (simp_all add: bind_def)

subsection \<open>Shapes and indexing of array operations\<close>

lemma shape3_length: "shape3 a = shape3 b \<Longrightarrow> length a = length b"
proof -
  assume "shape3 a = shape3 b"
  then have "length (shape3 a) = length (shape3 b)" by simp
  then show ?thesis by (simp add: shape3_def)
qed

lemma shape3_length2:
  assumes "shape3 a = shape3 b" and "i < length a"
  shows "length (a ! i) = length (b ! i)"
proof -
  have "i < length b" using assms shape3_length by metis
  have "length (shape3 a ! i) = length (shape3 b ! i)" using assms by simp
  then show ?thesis using \<open>i < length a\<close> \<open>i < length b\<close> by (simp add: shape3_def)
qed

lemma shape3_length3:
  assumes "shape3 a = shape3 b" and "i < length a" and "j < length (a ! i)"
  shows "length (a ! i ! j) = length (b ! i ! j)"
proof -
  have ib: "i < length b" using assms shape3_length by metis
  have jb: "j < length (b ! i)" using assms shape3_length2 by metis
  have "shape3 a ! i ! j = shape3 b ! i ! j" using assms by simp
  then show ?thesis using assms(2,3) ib jb by (simp add: shape3_def)
qed

lemma shape3_eqI:
  assumes "length a = length b"
    and "\<And>i. i < length a \<Longrightarrow> length (a ! i) = length (b ! i)"
    and "\<And>i j. i < length a \<Longrightarrow> j < length (a ! i) \<Longrightarrow> length (a ! i ! j) = length (b ! i ! j)"
  shows "shape3 a = shape3 b"
  unfolding shape3_def
proof (rule nth_equalityI)
  show "length (map (map length) a) = length (map (map length) b)" using assms(1) by simp
next
  fix i assume "i < length (map (map length) a)"
  then have i: "i < length a" by simp
  have "map length (a ! i) = map length (b ! i)"
    by (rule nth_equalityI) (use assms(2,3) i in auto)
  then show "map (map length) a ! i = map (map length) b ! i"
    using i assms(1) by simp
qed

lemma shape3_map3: "shape3 (map3 f a) = shape3 a"
  by (rule shape3_eqI) (simp_all add: map3_def)

lemma nth_map3:
  "i < length a \<Longrightarrow> j < length (a ! i) \<Longrightarrow> k < length (a ! i ! j) \<Longrightarrow>
   map3 f a ! i ! j ! k = f (a ! i ! j ! k)"
  by (simp add: map3_def)

lemma shape3_bcast3: "shape3 (bcast3 f a g) = shape3 a"
  by (rule shape3_eqI) (simp_all add: bcast3_def)

lemma nth_bcast3:
  "i < length a \<Longrightarrow> j < length (a ! i) \<Longrightarrow> k < length (a ! i ! j) \<Longrightarrow>
   bcast3 f a g ! i ! j ! k = f (a ! i ! j ! k) (g i j)"
  by (simp add: bcast3_def)

lemma shape3_zip3:
  assumes "shape3 a = shape3 b"
  shows "shape3 (zip3 f a b) = shape3 a"
proof (rule shape3_eqI)
  show "length (zip3 f a b) = length a"
    using shape3_length[OF assms] by (simp add: zip3_def)
next
  fix i assume "i < length (zip3 f a b)"
  then have i: "i < length a" "i < length b" by (simp_all add: zip3_def)
  show "length (zip3 f a b ! i) = length (a ! i)"
    using i shape3_length2[OF assms i(1)] by (simp add: zip3_def)
next
  fix i j assume "i < length (zip3 f a b)" and j: "j < length (zip3 f a b ! i)"
  then have i: "i < length a" "i < length b" by (simp_all add: zip3_def)
  have j': "j < length (a ! i)" "j < length (b ! i)"
    using j i by (simp_all add: zip3_def)
  show "length (zip3 f a b ! i ! j) = length (a ! i ! j)"
    using i j' shape3_length3[OF assms i(1) j'(1)] by (simp add: zip3_def)
qed

lemma nth_zip3:
  assumes "shape3 a = shape3 b" and "i < length a" and "j < length (a ! i)"
    and "k < length (a ! i ! j)"
  shows "zip3 f a b ! i ! j ! k = f (a ! i ! j ! k) (b ! i ! j ! k)"
proof -
  have ib: "i < length b" using assms(1,2) shape3_length by metis
  have jb: "j < length (b ! i)" using shape3_length2[OF assms(1,2)] assms(3) by simp
  have kb: "k < length (b ! i ! j)" using shape3_length3[OF assms(1,2,3)] assms(4) by simp
  show ?thesis using assms(2-4) ib jb kb by (simp add: zip3_def)
qed

text \<open>An index into an array is an index into every array of the same shape.\<close>

lemma shape3_index:
  assumes "shape3 a = shape3 b" and "i < length b" and "j < length (b ! i)"
    and "k < length (b ! i ! j)"
  shows "i < length a \<and> j < length (a ! i) \<and> k < length (a ! i ! j)"
proof -
  have i: "i < length a" using assms(1,2) shape3_length by metis
  have j: "j < length (a ! i)" using shape3_length2[OF assms(1) i] assms(3) by simp
  have k: "k < length (a ! i ! j)" using shape3_length3[OF assms(1) i j] assms(4) by simp
  show ?thesis using i j k by simp
qed

section \<open>Calibration: \<open>_cal_narrowband\<close>\<close>

lemma where_ge_1_max: "where_ge_1 r = max r 1"
  by (simp add: where_ge_1_def max_def)

lemma ensure_range_Some:
  "range_arr ed = Some rng \<Longrightarrow> ensure_range co ed env cal = Inr (ed, rng)"
  by (simp add: ensure_range_def)

lemma ensure_range_None:
  "range_arr ed = None \<Longrightarrow> calc_range co ed env cal = Inr rng \<Longrightarrow>
     ensure_range co ed env cal = Inr (ed\<lparr>range_arr := Some rng\<rparr>, rng)"
  by (simp add: ensure_range_def)

lemma ensure_range_raw:
  "ensure_range co ed env cal = Inr (ed1, rng) \<Longrightarrow>
     raw_backscatter_r ed1 = raw_backscatter_r ed \<and> raw_frequency ed1 = raw_frequency ed
     \<and> raw_transmit_duration_nominal ed1 = raw_transmit_duration_nominal ed
     \<and> vend ed1 = vend ed \<and> raw_environment ed1 = raw_environment ed
     \<and> files ed1 = files ed \<and> stdout ed1 = stdout ed
     \<and> range_arr ed1 = Some rng"
  by (auto simp: ensure_range_def bind_def split: option.splits sum.splits)

lemma ensure_range_ex:
  assumes "range_arr ed = Some rng \<or> range_arr ed = None \<and> calc_range co ed env cal = Inr rng"
  shows "\<exists>ed1. ensure_range co ed env cal = Inr (ed1, rng)"
  using assms ensure_range_Some ensure_range_None by blast

lemma nth_Sv_array:
  assumes sh: "shape3 rng = shape3 bs"
    and i: "i < length bs" and j: "j < length (bs ! i)" and k: "k < length (bs ! i ! j)"
  shows "Sv_array bs (spreading_loss rng) (absorption_loss alpha rng) csv sa ! i ! j ! k =
     bs ! i ! j ! k + 20 * log 10 (where_ge_1 (rng ! i ! j ! k))
       + 2 * param_at alpha i j * (rng ! i ! j ! k)
       - csv i j - 2 * param_at sa i j"
proof -
  have r: "i < length rng" "j < length (rng ! i)" "k < length (rng ! i ! j)"
    using shape3_index[OF sh i j k] by simp_all
  have 1: "shape3 bs = shape3 (spreading_loss rng)"
    using sh by (simp add: spreading_loss_def shape3_map3)
  let ?z1 = "zip3 (+) bs (spreading_loss rng)"
  have s1: "shape3 ?z1 = shape3 bs" by (rule shape3_zip3[OF 1])
  have 2: "shape3 ?z1 = shape3 (absorption_loss alpha rng)"
    using sh s1 by (simp add: absorption_loss_def shape3_bcast3)
  let ?z2 = "zip3 (+) ?z1 (absorption_loss alpha rng)"
  have s2: "shape3 ?z2 = shape3 bs" using shape3_zip3[OF 2] s1 by simp
  let ?b1 = "bcast3 (-) ?z2 csv"
  have s3: "shape3 ?b1 = shape3 bs" using s2 by (simp add: shape3_bcast3)
  have x1: "i < length ?z1" "j < length (?z1 ! i)" "k < length (?z1 ! i ! j)"
    using shape3_index[OF s1 i j k] by simp_all
  have x2: "i < length ?z2" "j < length (?z2 ! i)" "k < length (?z2 ! i ! j)"
    using shape3_index[OF s2 i j k] by simp_all
  have x3: "i < length ?b1" "j < length (?b1 ! i)" "k < length (?b1 ! i ! j)"
    using shape3_index[OF s3 i j k] by simp_all
  have v1: "?z1 ! i ! j ! k = bs ! i ! j ! k + 20 * log 10 (where_ge_1 (rng ! i ! j ! k))"
    using nth_zip3[OF 1 i j k] nth_map3[OF r] by (simp add: spreading_loss_def)
  have v2: "?z2 ! i ! j ! k = ?z1 ! i ! j ! k + 2 * param_at alpha i j * (rng ! i ! j ! k)"
    using nth_zip3[OF 2 x1] nth_bcast3[OF r] by (simp add: absorption_loss_def)
  have v3: "?b1 ! i ! j ! k = ?z2 ! i ! j ! k - csv i j"
    by (rule nth_bcast3[OF x2])
  have "Sv_array bs (spreading_loss rng) (absorption_loss alpha rng) csv sa ! i ! j ! k
          = ?b1 ! i ! j ! k - 2 * param_at sa i j"
    unfolding Sv_array_def by (rule nth_bcast3[OF x3])
  then show ?thesis using v1 v2 v3 by simp
qed

lemma shape3_Sv_array:
  assumes sh: "shape3 rng = shape3 bs"
  shows "shape3 (Sv_array bs (spreading_loss rng) (absorption_loss alpha rng) csv sa) = shape3 bs"
proof -
  have 1: "shape3 bs = shape3 (spreading_loss rng)"
    using sh by (simp add: spreading_loss_def shape3_map3)
  have s1: "shape3 (zip3 (+) bs (spreading_loss rng)) = shape3 bs" by (rule shape3_zip3[OF 1])
  have 2: "shape3 (zip3 (+) bs (spreading_loss rng)) = shape3 (absorption_loss alpha rng)"
    using sh s1 by (simp add: absorption_loss_def shape3_bcast3)
  show ?thesis
    unfolding Sv_array_def using shape3_zip3[OF 2] s1 by (simp add: shape3_bcast3)
qed

lemma nth_Sp_array:
  assumes sh: "shape3 rng = shape3 bs"
    and i: "i < length bs" and j: "j < length (bs ! i)" and k: "k < length (bs ! i ! j)"
  shows "Sp_array bs (spreading_loss rng) (absorption_loss alpha rng) csp ! i ! j ! k =
     bs ! i ! j ! k + 20 * log 10 (where_ge_1 (rng ! i ! j ! k)) * 2
       + 2 * param_at alpha i j * (rng ! i ! j ! k)
       - csp i j"
proof -
  have r: "i < length rng" "j < length (rng ! i)" "k < length (rng ! i ! j)"
    using shape3_index[OF sh i j k] by simp_all
  let ?sl2 = "map3 (\<lambda>x. x * 2) (spreading_loss rng)"
  have ssl: "shape3 (spreading_loss rng) = shape3 rng"
    by (simp add: spreading_loss_def shape3_map3)
  have rs: "i < length (spreading_loss rng)" "j < length (spreading_loss rng ! i)"
    "k < length (spreading_loss rng ! i ! j)"
    using shape3_index[OF ssl r] by simp_all
  have 1: "shape3 bs = shape3 ?sl2"
    using sh ssl by (simp add: shape3_map3)
  let ?z1 = "zip3 (+) bs ?sl2"
  have s1: "shape3 ?z1 = shape3 bs" by (rule shape3_zip3[OF 1])
  have 2: "shape3 ?z1 = shape3 (absorption_loss alpha rng)"
    using sh s1 by (simp add: absorption_loss_def shape3_bcast3)
  let ?z2 = "zip3 (+) ?z1 (absorption_loss alpha rng)"
  have s2: "shape3 ?z2 = shape3 bs" using shape3_zip3[OF 2] s1 by simp
  have x1: "i < length ?z1" "j < length (?z1 ! i)" "k < length (?z1 ! i ! j)"
    using shape3_index[OF s1 i j k] by simp_all
  have x2: "i < length ?z2" "j < length (?z2 ! i)" "k < length (?z2 ! i ! j)"
    using shape3_index[OF s2 i j k] by simp_all
  have v0: "?sl2 ! i ! j ! k = 20 * log 10 (where_ge_1 (rng ! i ! j ! k)) * 2"
    using nth_map3[OF rs] nth_map3[OF r] by (simp add: spreading_loss_def)
  have v1: "?z1 ! i ! j ! k = bs ! i ! j ! k + 20 * log 10 (where_ge_1 (rng ! i ! j ! k)) * 2"
    using nth_zip3[OF 1 i j k] v0 by simp
  have v2: "?z2 ! i ! j ! k = ?z1 ! i ! j ! k + 2 * param_at alpha i j * (rng ! i ! j ! k)"
    using nth_zip3[OF 2 x1] nth_bcast3[OF r] by (simp add: absorption_loss_def)
  have "Sp_array bs (spreading_loss rng) (absorption_loss alpha rng) csp ! i ! j ! k
          = ?z2 ! i ! j ! k - csp i j"
    unfolding Sp_array_def by (rule nth_bcast3[OF x2])
  then show ?thesis using v1 v2 by simp
qed

lemma shape3_Sp_array:
  assumes sh: "shape3 rng = shape3 bs"
  shows "shape3 (Sp_array bs (spreading_loss rng) (absorption_loss alpha rng) csp) = shape3 bs"
proof -
  have 1: "shape3 bs = shape3 (map3 (\<lambda>x. x * 2) (spreading_loss rng))"
    using sh by (simp add: spreading_loss_def shape3_map3)
  have s1: "shape3 (zip3 (+) bs (map3 (\<lambda>x. x * 2) (spreading_loss rng))) = shape3 bs"
    by (rule shape3_zip3[OF 1])
  have 2: "shape3 (zip3 (+) bs (map3 (\<lambda>x. x * 2) (spreading_loss rng)))
             = shape3 (absorption_loss alpha rng)"
    using sh s1 by (simp add: absorption_loss_def shape3_bcast3)
  show ?thesis
    unfolding Sp_array_def using shape3_zip3[OF 2] s1 by (simp add: shape3_bcast3)
qed

text \<open>What a successful Sv call computes.\<close>

lemma cal_narrowband_Sv_eq:
  assumes c: "env_params ''speed_of_sound_in_water'' = Some c"
    and alpha: "env_params ''seawater_absorption'' = Some alpha"
    and tp: "cal_params ''transmit_power'' = Some tp"
    and g: "cal_params ''gain_correction'' = Some g"
    and eba: "cal_params ''equivalent_beam_angle'' = Some eba"
    and tdn: "cal_params ''transmit_duration_nominal'' = Some tdn"
    and sa: "cal_params ''sa_correction'' = Some sa"
    and rng: "ensure_range co ed env_params cal_params = Inr (ed1, rng)"
  shows "cal_narrowband co ed env_params cal_params ''Sv'' save save_path =
     Inr (store_Sv co ed1
            [''Sv'' \<mapsto> Sv_array (raw_backscatter_r ed1) (spreading_loss rng)
                 (absorption_loss alpha rng)
                 (CSv tp g eba (wavelength c (raw_frequency ed)) tdn c) sa,
             ''range'' \<mapsto> rng] save save_path)"
  unfolding cal_narrowband_def using assms by (simp add: Let_def)

lemma cal_narrowband_Sp_eq:
  assumes c: "env_params ''speed_of_sound_in_water'' = Some c"
    and alpha: "env_params ''seawater_absorption'' = Some alpha"
    and tp: "cal_params ''transmit_power'' = Some tp"
    and g: "cal_params ''gain_correction'' = Some g"
    and rng: "ensure_range co ed env_params cal_params = Inr (ed1, rng)"
  shows "cal_narrowband co ed env_params cal_params ''Sp'' save save_path =
     Inr (store_Sp co ed1
            [''Sp'' \<mapsto> Sp_array (raw_backscatter_r ed1) (spreading_loss rng)
                 (absorption_loss alpha rng)
                 (CSp tp g (wavelength c (raw_frequency ed))),
             ''range'' \<mapsto> rng] save save_path)"
  unfolding cal_narrowband_def using assms by (simp add: Let_def)

lemma delivered_store_Sv:
  "files ed1 = files ed \<Longrightarrow> delivered ''Sv'' save ed (store_Sv co ed1 ds save save_path) ds"
  by (simp add: delivered_def store_Sv_def Let_def)

lemma delivered_store_Sp:
  "files ed1 = files ed \<Longrightarrow> delivered ''Sp'' save ed (store_Sp co ed1 ds save save_path) ds"
  by (simp add: delivered_def store_Sp_def Let_def)

text \<open>
  Claim C1. When the environment and calibration dicts hold every key the Sv branch
  reads, and the range (cached on \<open>ed\<close> or computed by \<open>calc_range\<close>) has the shape
  of the raw backscatter, \<open>_cal_narrowband\<close> with \<open>cal_type = 'Sv'\<close> succeeds and hands
  over a dataset whose variable \<open>Sv\<close> has the shape of the raw backscatter and, at every
  (channel, ping_time, range_bin) sample, the value
  \<open>raw_power + spreading_loss + absorption_loss - gain_term - 2 * sa_correction\<close> with
  the gain term, wavelength, spreading loss and absorption loss of the specification.
\<close>
theorem cal_narrowband_Sv_formula:
  assumes c: "env_params ''speed_of_sound_in_water'' = Some c"
    and alpha: "env_params ''seawater_absorption'' = Some alpha"
    and tp: "cal_params ''transmit_power'' = Some tp"
    and g: "cal_params ''gain_correction'' = Some g"
    and eba: "cal_params ''equivalent_beam_angle'' = Some eba"
    and tdn: "cal_params ''transmit_duration_nominal'' = Some tdn"
    and sa: "cal_params ''sa_correction'' = Some sa"
    and rng: "range_arr ed = Some rng
              \<or> range_arr ed = None \<and> calc_range co ed env_params cal_params = Inr rng"
    and sh: "shape3 rng = shape3 (raw_backscatter_r ed)"
    and i: "i < length (raw_backscatter_r ed)"
    and j: "j < length (raw_backscatter_r ed ! i)"
    and k: "k < length (raw_backscatter_r ed ! i ! j)"
  shows "\<exists>ed' ds sv.
     cal_narrowband co ed env_params cal_params ''Sv'' save save_path = Inr ed'
     \<and> delivered ''Sv'' save ed ed' ds
     \<and> ds ''Sv'' = Some sv
     \<and> shape3 sv = shape3 (raw_backscatter_r ed)
     \<and> sv ! i ! j ! k =
         spec_Sv (raw_backscatter_r ed ! i ! j ! k)
           (spec_spreading_loss (rng ! i ! j ! k))
           (spec_absorption_loss (param_at alpha i j) (rng ! i ! j ! k))
           (spec_gain_Sv (param_at tp i j) (param_at g i j) (param_at eba i j)
              (spec_wavelength (param_at c i j) (raw_frequency ed ! i))
              (param_at tdn i j) (param_at c i j))
           (param_at sa i j)"
proof -
  obtain ed1 where e1: "ensure_range co ed env_params cal_params = Inr (ed1, rng)"
    using ensure_range_ex[OF rng] by blast
  have raw: "raw_backscatter_r ed1 = raw_backscatter_r ed" "files ed1 = files ed"
    using ensure_range_raw[OF e1] by simp_all
  let ?sv = "Sv_array (raw_backscatter_r ed) (spreading_loss rng) (absorption_loss alpha rng)
               (CSv tp g eba (wavelength c (raw_frequency ed)) tdn c) sa"
  let ?ds = "[''Sv'' \<mapsto> ?sv, ''range'' \<mapsto> rng]"
  let ?ed' = "store_Sv co ed1 ?ds save save_path"
  have run: "cal_narrowband co ed env_params cal_params ''Sv'' save save_path = Inr ?ed'"
    using cal_narrowband_Sv_eq[OF c alpha tp g eba tdn sa e1] raw by simp
  have del: "delivered ''Sv'' save ed ?ed' ?ds"
    by (rule delivered_store_Sv[OF raw(2)])
  have var: "?ds ''Sv'' = Some ?sv" by simp
  have shp: "shape3 ?sv = shape3 (raw_backscatter_r ed)"
    by (rule shape3_Sv_array[OF sh])
  have val: "?sv ! i ! j ! k =
         spec_Sv (raw_backscatter_r ed ! i ! j ! k)
           (spec_spreading_loss (rng ! i ! j ! k))
           (spec_absorption_loss (param_at alpha i j) (rng ! i ! j ! k))
           (spec_gain_Sv (param_at tp i j) (param_at g i j) (param_at eba i j)
              (spec_wavelength (param_at c i j) (raw_frequency ed ! i))
              (param_at tdn i j) (param_at c i j))
           (param_at sa i j)"
    using nth_Sv_array[OF sh i j k]
    by (simp add: spec_Sv_def spec_spreading_loss_def spec_absorption_loss_def spec_gain_Sv_def
        spec_wavelength_def CSv_def wavelength_def where_ge_1_max)
  show ?thesis using run del var shp val by blast
qed

text \<open>
  Claim C2. Under the same conditions \<open>_cal_narrowband\<close> with \<open>cal_type = 'Sp'\<close>
  hands over a dataset whose variable \<open>Sp\<close> is, at every sample,
  \<open>raw_power + 2 * spreading_loss + absorption_loss - gain_term\<close> with the gain term
  \<open>10 * log10(transmit_power) + 2 * gain_correction + 10 * log10(wavelength^2 / (16 * pi^2))\<close>:
  the spreading loss counts twice and no sa_correction is subtracted (the Sp branch does
  not read that key).
\<close>
theorem cal_narrowband_Sp_formula:
  assumes c: "env_params ''speed_of_sound_in_water'' = Some c"
    and alpha: "env_params ''seawater_absorption'' = Some alpha"
    and tp: "cal_params ''transmit_power'' = Some tp"
    and g: "cal_params ''gain_correction'' = Some g"
    and rng: "range_arr ed = Some rng
              \<or> range_arr ed = None \<and> calc_range co ed env_params cal_params = Inr rng"
    and sh: "shape3 rng = shape3 (raw_backscatter_r ed)"
    and i: "i < length (raw_backscatter_r ed)"
    and j: "j < length (raw_backscatter_r ed ! i)"
    and k: "k < length (raw_backscatter_r ed ! i ! j)"
  shows "\<exists>ed' ds sp.
     cal_narrowband co ed env_params cal_params ''Sp'' save save_path = Inr ed'
     \<and> delivered ''Sp'' save ed ed' ds
     \<and> ds ''Sp'' = Some sp
     \<and> shape3 sp = shape3 (raw_backscatter_r ed)
     \<and> sp ! i ! j ! k =
         spec_Sp (raw_backscatter_r ed ! i ! j ! k)
           (spec_spreading_loss (rng ! i ! j ! k))
           (spec_absorption_loss (param_at alpha i j) (rng ! i ! j ! k))
           (spec_gain_Sp (param_at tp i j) (param_at g i j)
              (spec_wavelength (param_at c i j) (raw_frequency ed ! i)))"
proof -
  obtain ed1 where e1: "ensure_range co ed env_params cal_params = Inr (ed1, rng)"
    using ensure_range_ex[OF rng] by blast
  have raw: "raw_backscatter_r ed1 = raw_backscatter_r ed" "files ed1 = files ed"
    using ensure_range_raw[OF e1] by simp_all
  let ?sp = "Sp_array (raw_backscatter_r ed) (spreading_loss rng) (absorption_loss alpha rng)
               (CSp tp g (wavelength c (raw_frequency ed)))"
  let ?ds = "[''Sp'' \<mapsto> ?sp, ''range'' \<mapsto> rng]"
  let ?ed' = "store_Sp co ed1 ?ds save save_path"
  have run: "cal_narrowband co ed env_params cal_params ''Sp'' save save_path = Inr ?ed'"
    using cal_narrowband_Sp_eq[OF c alpha tp g e1] raw by simp
  have del: "delivered ''Sp'' save ed ?ed' ?ds"
    by (rule delivered_store_Sp[OF raw(2)])
  have var: "?ds ''Sp'' = Some ?sp" by simp
  have shp: "shape3 ?sp = shape3 (raw_backscatter_r ed)"
    by (rule shape3_Sp_array[OF sh])
  have val: "?sp ! i ! j ! k =
         spec_Sp (raw_backscatter_r ed ! i ! j ! k)
           (spec_spreading_loss (rng ! i ! j ! k))
           (spec_absorption_loss (param_at alpha i j) (rng ! i ! j ! k))
           (spec_gain_Sp (param_at tp i j) (param_at g i j)
              (spec_wavelength (param_at c i j) (raw_frequency ed ! i)))"
    using nth_Sp_array[OF sh i j k]
    by (simp add: spec_Sp_def spec_spreading_loss_def spec_absorption_loss_def spec_gain_Sp_def
        spec_wavelength_def CSp_def wavelength_def where_ge_1_max)
  show ?thesis using run del var shp val by blast
qed

text \<open>
  The end-to-end scenario of the specification as an instance of the theorem: -60 dB at
  50 m, 1500 m/s, 38 kHz, 1000 W, 20 dB gain, -20 dB beam angle, 1 ms pulse, no sa
  correction, 0.01 dB/m absorption.
\<close>
theorem cal_narrowband_Sv_formula_witness:
  "scenario_env ''speed_of_sound_in_water'' = Some (Scalar 1500)
   \<and> scenario_env ''seawater_absorption'' = Some (PerChannel [1 / 100])
   \<and> scenario_cal ''transmit_power'' = Some (Scalar 1000)
   \<and> scenario_cal ''gain_correction'' = Some (PerChannel [20])
   \<and> scenario_cal ''equivalent_beam_angle'' = Some (PerChannel [- 20])
   \<and> scenario_cal ''transmit_duration_nominal'' = Some (Scalar (1 / 1000))
   \<and> scenario_cal ''sa_correction'' = Some (PerChannel [0])
   \<and> range_arr scenario_ed = Some [[[50]]]
   \<and> shape3 [[[50]]] = shape3 (raw_backscatter_r scenario_ed)
   \<and> (\<exists>ed' ds sv.
        cal_narrowband scenario_co scenario_ed scenario_env scenario_cal ''Sv'' False None = Inr ed'
        \<and> delivered ''Sv'' False scenario_ed ed' ds
        \<and> ds ''Sv'' = Some sv
        \<and> sv ! 0 ! 0 ! 0 =
            spec_Sv (- 60) (spec_spreading_loss 50) (spec_absorption_loss (1 / 100) 50)
              (spec_gain_Sv 1000 20 (- 20) (spec_wavelength 1500 38000) (1 / 1000) 1500) 0)"
proof -
  have h: "scenario_env ''speed_of_sound_in_water'' = Some (Scalar 1500)"
    "scenario_env ''seawater_absorption'' = Some (PerChannel [1 / 100])"
    "scenario_cal ''transmit_power'' = Some (Scalar 1000)"
    "scenario_cal ''gain_correction'' = Some (PerChannel [20])"
    "scenario_cal ''equivalent_beam_angle'' = Some (PerChannel [- 20])"
    "scenario_cal ''transmit_duration_nominal'' = Some (Scalar (1 / 1000))"
    "scenario_cal ''sa_correction'' = Some (PerChannel [0])"
    by (simp_all add: scenario_env_def scenario_cal_def)
  have r: "range_arr scenario_ed = Some [[[50]]]
           \<or> range_arr scenario_ed = None
             \<and> calc_range scenario_co scenario_ed scenario_env scenario_cal = Inr [[[50]]]"
    by (simp add: scenario_ed_def)
  have s: "shape3 [[[50]]] = shape3 (raw_backscatter_r scenario_ed)"
    by (simp add: scenario_ed_def shape3_def)
  have i: "0 < length (raw_backscatter_r scenario_ed)"
    "0 < length (raw_backscatter_r scenario_ed ! 0)"
    "0 < length (raw_backscatter_r scenario_ed ! 0 ! 0)"
    by (simp_all add: scenario_ed_def)
  from cal_narrowband_Sv_formula[OF h r s i, where save = False and save_path = None]
  have "\<exists>ed' ds sv.
        cal_narrowband scenario_co scenario_ed scenario_env scenario_cal ''Sv'' False None = Inr ed'
        \<and> delivered ''Sv'' False scenario_ed ed' ds
        \<and> ds ''Sv'' = Some sv
        \<and> sv ! 0 ! 0 ! 0 =
            spec_Sv (- 60) (spec_spreading_loss 50) (spec_absorption_loss (1 / 100) 50)
              (spec_gain_Sv 1000 20 (- 20) (spec_wavelength 1500 38000) (1 / 1000) 1500) 0"
    by (simp add: scenario_ed_def) blast
  then show ?thesis using h r s by (simp add: scenario_ed_def)
qed

theorem cal_narrowband_Sp_formula_witness:
  "scenario_env ''speed_of_sound_in_water'' = Some (Scalar 1500)
   \<and> scenario_env ''seawater_absorption'' = Some (PerChannel [1 / 100])
   \<and> scenario_cal ''transmit_power'' = Some (Scalar 1000)
   \<and> scenario_cal ''gain_correction'' = Some (PerChannel [20])
   \<and> range_arr (scenario_ed\<lparr>range_arr := None\<rparr>) = None
   \<and> calc_range scenario_co (scenario_ed\<lparr>range_arr := None\<rparr>) scenario_env scenario_cal
       = Inr [[[50]]]
   \<and> shape3 [[[50]]] = shape3 (raw_backscatter_r scenario_ed)
   \<and> (\<exists>ed' ds sp.
        cal_narrowband scenario_co (scenario_ed\<lparr>range_arr := None\<rparr>) scenario_env scenario_cal
          ''Sp'' True None = Inr ed'
        \<and> delivered ''Sp'' True (scenario_ed\<lparr>range_arr := None\<rparr>) ed' ds
        \<and> ds ''Sp'' = Some sp
        \<and> sp ! 0 ! 0 ! 0 =
            spec_Sp (- 60) (spec_spreading_loss 50) (spec_absorption_loss (1 / 100) 50)
              (spec_gain_Sp 1000 20 (spec_wavelength 1500 38000)))"
proof -
  let ?ed = "scenario_ed\<lparr>range_arr := None\<rparr>"
  have h: "scenario_env ''speed_of_sound_in_water'' = Some (Scalar 1500)"
    "scenario_env ''seawater_absorption'' = Some (PerChannel [1 / 100])"
    "scenario_cal ''transmit_power'' = Some (Scalar 1000)"
    "scenario_cal ''gain_correction'' = Some (PerChannel [20])"
    by (simp_all add: scenario_env_def scenario_cal_def)
  have c: "calc_range scenario_co ?ed scenario_env scenario_cal = Inr [[[50]]]"
    by (simp add: scenario_ed_def scenario_co_def map3_def)
  have r: "range_arr ?ed = Some [[[50]]]
           \<or> range_arr ?ed = None \<and> calc_range scenario_co ?ed scenario_env scenario_cal = Inr [[[50]]]"
    using c by simp
  have s: "shape3 [[[50]]] = shape3 (raw_backscatter_r ?ed)"
    by (simp add: scenario_ed_def shape3_def)
  have i: "0 < length (raw_backscatter_r ?ed)"
    "0 < length (raw_backscatter_r ?ed ! 0)"
    "0 < length (raw_backscatter_r ?ed ! 0 ! 0)"
    by (simp_all add: scenario_ed_def)
  from cal_narrowband_Sp_formula[OF h r s i, where save = True and save_path = None]
  have "\<exists>ed' ds sp.
        cal_narrowband scenario_co ?ed scenario_env scenario_cal ''Sp'' True None = Inr ed'
        \<and> delivered ''Sp'' True ?ed ed' ds
        \<and> ds ''Sp'' = Some sp
        \<and> sp ! 0 ! 0 ! 0 =
            spec_Sp (- 60) (spec_spreading_loss 50) (spec_absorption_loss (1 / 100) 50)
              (spec_gain_Sp 1000 20 (spec_wavelength 1500 38000))"
    by (simp add: scenario_ed_def) blast
  then show ?thesis using h c s by (simp add: scenario_ed_def)
qed

text \<open>
  Claim C4. At every sample the spreading loss of line 211 is
  \<open>20 * log10(max(range, 1))\<close>: the argument handed to the logarithm is at least 1, so
  the logarithm is never taken at zero or below, the loss is never negative, and a range
  below one unit, zero included, gives the loss 0.
\<close>
theorem spreading_loss_clamped:
  assumes "i < length rng" and "j < length (rng ! i)" and "k < length (rng ! i ! j)"
  shows "spreading_loss rng ! i ! j ! k = spec_spreading_loss (rng ! i ! j ! k)
     \<and> 1 \<le> where_ge_1 (rng ! i ! j ! k)
     \<and> 0 \<le> spreading_loss rng ! i ! j ! k
     \<and> (rng ! i ! j ! k < 1 \<longrightarrow>
          where_ge_1 (rng ! i ! j ! k) = 1 \<and> spreading_loss rng ! i ! j ! k = 0)"
proof -
  let ?r = "rng ! i ! j ! k"
  have v: "spreading_loss rng ! i ! j ! k = 20 * log 10 (where_ge_1 ?r)"
    using nth_map3[OF assms] by (simp add: spreading_loss_def)
  have ge: "1 \<le> where_ge_1 ?r" by (simp add: where_ge_1_def)
  have "0 \<le> log 10 (where_ge_1 ?r)" using ge by simp
  then have nn: "0 \<le> spreading_loss rng ! i ! j ! k" using v by simp
  have lt: "?r < 1 \<longrightarrow> where_ge_1 ?r = 1 \<and> spreading_loss rng ! i ! j ! k = 0"
    using v by (simp add: where_ge_1_def)
  show ?thesis using v ge nn lt by (simp add: spec_spreading_loss_def where_ge_1_max)
qed

theorem spreading_loss_clamped_witness:
  "(0::nat) < length [[[0 :: real, 1 / 2, 50]]]
   \<and> (0::nat) < length ([[[0 :: real, 1 / 2, 50]]] ! 0)
   \<and> (0::nat) < length ([[[0 :: real, 1 / 2, 50]]] ! 0 ! 0)
   \<and> [[[0 :: real, 1 / 2, 50]]] ! 0 ! 0 ! 0 < 1
   \<and> where_ge_1 ([[[0, 1 / 2, 50]]] ! 0 ! 0 ! 0) = 1
   \<and> spreading_loss [[[0, 1 / 2, 50]]] ! 0 ! 0 ! 0 = 0
   \<and> spreading_loss [[[0, 1 / 2, 50]]] ! 0 ! 0 ! 0 = spec_spreading_loss 0"
  using spreading_loss_clamped[of 0 "[[[0, 1 / 2, 50]]]" 0 0] by simp

lemma ensure_range_source:
  "ensure_range co ed env cal = Inr (ed1, rng) \<Longrightarrow>
     range_arr ed = Some rng \<or> range_arr ed = None \<and> calc_range co ed env cal = Inr rng"
  by (auto simp: ensure_range_def bind_eq_Inr split: option.splits)

lemma store_Sv_raw:
  "raw_frequency (store_Sv co ed ds save p) = raw_frequency ed"
  "raw_backscatter_r (store_Sv co ed ds save p) = raw_backscatter_r ed"
  "raw_transmit_duration_nominal (store_Sv co ed ds save p) = raw_transmit_duration_nominal ed"
  "vend (store_Sv co ed ds save p) = vend ed"
  "raw_environment (store_Sv co ed ds save p) = raw_environment ed"
  "range_arr (store_Sv co ed ds save p) = range_arr ed"
  by (simp_all add: store_Sv_def Let_def)

lemma store_Sp_raw:
  "raw_frequency (store_Sp co ed ds save p) = raw_frequency ed"
  "raw_backscatter_r (store_Sp co ed ds save p) = raw_backscatter_r ed"
  "raw_transmit_duration_nominal (store_Sp co ed ds save p) = raw_transmit_duration_nominal ed"
  "vend (store_Sp co ed ds save p) = vend ed"
  "raw_environment (store_Sp co ed ds save p) = raw_environment ed"
  "range_arr (store_Sp co ed ds save p) = range_arr ed"
  by (simp_all add: store_Sp_def Let_def)

lemma cal_narrowband_Sv_success:
  assumes "cal_narrowband co ed env_params cal_params ''Sv'' save save_path = Inr ed'"
  shows "\<exists>ed1 rng sv. ensure_range co ed env_params cal_params = Inr (ed1, rng)
     \<and> ed' = store_Sv co ed1 [''Sv'' \<mapsto> sv, ''range'' \<mapsto> rng] save save_path
     \<and> (shape3 rng = shape3 (raw_backscatter_r ed1) \<longrightarrow> shape3 sv = shape3 rng)"
  using assms unfolding cal_narrowband_def
  apply (auto simp: bind_eq_Inr Let_def)
  apply (rule exI, rule conjI, rule refl)
  apply (simp add: shape3_Sv_array)
  done

lemma cal_narrowband_Sp_success:
  assumes "cal_narrowband co ed env_params cal_params ''Sp'' save save_path = Inr ed'"
  shows "\<exists>ed1 rng sp. ensure_range co ed env_params cal_params = Inr (ed1, rng)
     \<and> ed' = store_Sp co ed1 [''Sp'' \<mapsto> sp, ''range'' \<mapsto> rng] save save_path
     \<and> (shape3 rng = shape3 (raw_backscatter_r ed1) \<longrightarrow> shape3 sp = shape3 rng)"
  using assms unfolding cal_narrowband_def
  apply (auto simp: bind_eq_Inr Let_def)
  apply (rule exI, rule conjI, rule refl)
  apply (simp add: shape3_Sp_array)
  done

text \<open>
  Claim C7 as amended. A successful Sv or Sp call leaves the raw data of \<open>ed\<close>
  (frequency, backscatter, transmit duration, vendor tables, environment group)
  unchanged and updates \<open>ed\<close> itself: the range is cached on it, and the new dataset is
  either stored in the attribute \<open>Sv\<close> or \<open>Sp\<close> (without \<open>save\<close>) or written through
  \<open>_save_dataset\<close> with its path recorded (with \<open>save\<close>). The dataset holds the product
  and, as variable \<open>range\<close>, the range array, of the same shape whenever the range has
  the shape of the raw backscatter.
\<close>
theorem cal_narrowband_effect:
  assumes run: "cal_narrowband co ed env_params cal_params cal_type save save_path = Inr ed'"
    and ty: "cal_type = ''Sv'' \<or> cal_type = ''Sp''"
  shows "raw_frequency ed' = raw_frequency ed
     \<and> raw_backscatter_r ed' = raw_backscatter_r ed
     \<and> raw_transmit_duration_nominal ed' = raw_transmit_duration_nominal ed
     \<and> vend ed' = vend ed
     \<and> raw_environment ed' = raw_environment ed
     \<and> (\<exists>rng ds v.
          (range_arr ed = Some rng
            \<or> range_arr ed = None \<and> calc_range co ed env_params cal_params = Inr rng)
          \<and> range_arr ed' = Some rng
          \<and> delivered cal_type save ed ed' ds
          \<and> ds cal_type = Some v
          \<and> ds ''range'' = Some rng
          \<and> (shape3 rng = shape3 (raw_backscatter_r ed) \<longrightarrow> shape3 v = shape3 rng))"
proof -
  from ty show ?thesis
  proof
    assume t: "cal_type = ''Sv''"
    obtain ed1 rng sv where e: "ensure_range co ed env_params cal_params = Inr (ed1, rng)"
      and ed': "ed' = store_Sv co ed1 [''Sv'' \<mapsto> sv, ''range'' \<mapsto> rng] save save_path"
      and sh: "shape3 rng = shape3 (raw_backscatter_r ed1) \<longrightarrow> shape3 sv = shape3 rng"
      using cal_narrowband_Sv_success run t by blast
    note r = ensure_range_raw[OF e]
    have d: "delivered cal_type save ed ed' [''Sv'' \<mapsto> sv, ''range'' \<mapsto> rng]"
      unfolding t ed' using r by (intro delivered_store_Sv) simp
    show ?thesis
      using r ensure_range_source[OF e] d sh unfolding ed' t
      by (simp add: store_Sv_raw) (rule exI[of _ "[''Sv'' \<mapsto> sv, ''range'' \<mapsto> rng]"], simp)
  next
    assume t: "cal_type = ''Sp''"
    obtain ed1 rng sp where e: "ensure_range co ed env_params cal_params = Inr (ed1, rng)"
      and ed': "ed' = store_Sp co ed1 [''Sp'' \<mapsto> sp, ''range'' \<mapsto> rng] save save_path"
      and sh: "shape3 rng = shape3 (raw_backscatter_r ed1) \<longrightarrow> shape3 sp = shape3 rng"
      using cal_narrowband_Sp_success run t by blast
    note r = ensure_range_raw[OF e]
    have d: "delivered cal_type save ed ed' [''Sp'' \<mapsto> sp, ''range'' \<mapsto> rng]"
      unfolding t ed' using r by (intro delivered_store_Sp) simp
    show ?thesis
      using r ensure_range_source[OF e] d sh unfolding ed' t
      by (simp add: store_Sp_raw) (rule exI[of _ "[''Sp'' \<mapsto> sp, ''range'' \<mapsto> rng]"], simp)
  qed
qed

lemma scenario_params:
  "scenario_env ''speed_of_sound_in_water'' = Some (Scalar 1500)"
  "scenario_env ''seawater_absorption'' = Some (PerChannel [1 / 100])"
  "scenario_cal ''transmit_power'' = Some (Scalar 1000)"
  "scenario_cal ''gain_correction'' = Some (PerChannel [20])"
  "scenario_cal ''equivalent_beam_angle'' = Some (PerChannel [- 20])"
  "scenario_cal ''transmit_duration_nominal'' = Some (Scalar (1 / 1000))"
  "scenario_cal ''sa_correction'' = Some (PerChannel [0])"
  by (simp_all add: scenario_env_def scenario_cal_def)

lemma scenario_calc_range:
  "calc_range scenario_co (scenario_ed\<lparr>range_arr := None\<rparr>) scenario_env scenario_cal
     = Inr [[[50]]]"
  by (simp add: scenario_ed_def scenario_co_def map3_def)

lemma scenario_ensure_range:
  "ensure_range scenario_co (scenario_ed\<lparr>range_arr := None\<rparr>) scenario_env scenario_cal
     = Inr (scenario_ed, [[[50]]])"
  using ensure_range_None[OF _ scenario_calc_range] by (simp add: scenario_ed_def)

text \<open>
  Claim C7 says that a calibration call leaves the caller's inputs unchanged and returns
  a new dataset. The method returns nothing and writes to \<open>ed\<close>: in the scenario, with
  no range cached, the \<open>ed\<close> after the call holds the range and the dataset \<open>Sv\<close>
  that the \<open>ed\<close> before the call did not hold.
\<close>
theorem cal_narrowband_updates_ed:
  "\<exists>ed'. cal_narrowband scenario_co (scenario_ed\<lparr>range_arr := None\<rparr>) scenario_env
            scenario_cal ''Sv'' False None = Inr ed'
     \<and> range_arr (scenario_ed\<lparr>range_arr := None\<rparr>) = None
     \<and> range_arr ed' = Some [[[50]]]
     \<and> Sv (scenario_ed\<lparr>range_arr := None\<rparr>) = None
     \<and> Sv ed' \<noteq> None
     \<and> ed' \<noteq> scenario_ed\<lparr>range_arr := None\<rparr>"
proof -
  let ?ed = "scenario_ed\<lparr>range_arr := None\<rparr>"
  let ?ds = "[''Sv'' \<mapsto> Sv_array (raw_backscatter_r scenario_ed) (spreading_loss [[[50]]])
                 (absorption_loss (PerChannel [1 / 100]) [[[50]]])
                 (CSv (Scalar 1000) (PerChannel [20]) (PerChannel [- 20])
                    (wavelength (Scalar 1500) (raw_frequency ?ed)) (Scalar (1 / 1000))
                    (Scalar 1500)) (PerChannel [0]),
             ''range'' \<mapsto> [[[50]]]]"
  let ?ed' = "store_Sv scenario_co scenario_ed ?ds False None"
  have run: "cal_narrowband scenario_co ?ed scenario_env scenario_cal ''Sv'' False None = Inr ?ed'"
    by (rule cal_narrowband_Sv_eq[OF scenario_params scenario_ensure_range])
  have 1: "range_arr ?ed' = Some [[[50]]]" by (simp add: store_Sv_def scenario_ed_def)
  have 2: "Sv ?ed' \<noteq> None" by (simp add: store_Sv_def)
  have 3: "Sv ?ed = None" "range_arr ?ed = None" by (simp_all add: scenario_ed_def)
  have 4: "?ed' \<noteq> ?ed" using 2 3 by metis
  show ?thesis using run 1 2 3 4 by blast
qed

theorem cal_narrowband_effect_witness:
  "\<exists>ed'. cal_narrowband scenario_co (scenario_ed\<lparr>range_arr := None\<rparr>) scenario_env
            scenario_cal ''Sv'' True None = Inr ed'
     \<and> raw_frequency ed' = [38000]
     \<and> raw_backscatter_r ed' = [[[- 60]]]
     \<and> (\<exists>ds v. calc_range scenario_co (scenario_ed\<lparr>range_arr := None\<rparr>) scenario_env
                   scenario_cal = Inr [[[50]]]
          \<and> range_arr ed' = Some [[[50]]]
          \<and> delivered ''Sv'' True (scenario_ed\<lparr>range_arr := None\<rparr>) ed' ds
          \<and> ds ''Sv'' = Some v
          \<and> ds ''range'' = Some [[[50]]]
          \<and> shape3 v = shape3 [[[50]]])"
proof -
  let ?ed = "scenario_ed\<lparr>range_arr := None\<rparr>"
  obtain ed' where run:
    "cal_narrowband scenario_co ?ed scenario_env scenario_cal ''Sv'' True None = Inr ed'"
    using cal_narrowband_Sv_eq[OF scenario_params scenario_ensure_range] by blast
  have ty: "''Sv'' = ''Sv'' \<or> ''Sv'' = ''Sp''" by simp
  from cal_narrowband_effect[OF run ty]
  obtain rng ds v where
    raw: "raw_frequency ed' = raw_frequency ?ed" "raw_backscatter_r ed' = raw_backscatter_r ?ed"
    and src: "range_arr ?ed = Some rng
              \<or> range_arr ?ed = None \<and> calc_range scenario_co ?ed scenario_env scenario_cal = Inr rng"
    and r: "range_arr ed' = Some rng"
    and d: "delivered ''Sv'' True ?ed ed' ds"
    and v: "ds ''Sv'' = Some v" "ds ''range'' = Some rng"
    and sh: "shape3 rng = shape3 (raw_backscatter_r ?ed) \<longrightarrow> shape3 v = shape3 rng"
    by blast
  have rng: "rng = [[[50]]]" using src scenario_calc_range by (simp add: scenario_ed_def)
  have shv: "shape3 v = shape3 [[[50]]]"
    using sh unfolding rng by (simp add: scenario_ed_def shape3_def)
  show ?thesis
    using run raw r d v shv scenario_calc_range unfolding rng
    by (simp add: scenario_ed_def) blast
qed

section \<open>Sources, unimplemented modes and noise removal\<close>

text \<open>
  Claim C9 says that every source other than user-supplied parameters makes both
  operations raise. \<open>calc_sound_speed\<close> has a branch for \<open>src = 'file'\<close>: it returns the
  sound speed stored in the raw file.
\<close>

theorem calc_sound_speed_file_returns:
  "calc_sound_speed scenario_co file_ed None ''file'' ''Mackenzie'' = Inr (Some (Scalar 1480))"
  by (simp add: calc_sound_speed_def file_ed_def)

text \<open>
  Claim C9 as amended. \<open>calc_seawater_absorption\<close> raises the ValueError of line 38 for
  every source other than \<open>'user'\<close>. \<open>calc_sound_speed\<close> takes two sources: with
  \<open>'file'\<close> it returns the \<open>sound_speed_indicative\<close> of the raw file when the file
  has one, and with \<open>'user'\<close> it raises a ValueError when \<open>env_params\<close> is \<open>None\<close>.
\<close>

theorem sources_other_than_user:
  "(src \<noteq> ''user'' \<longrightarrow>
      calc_seawater_absorption co ed env_params src formula_source
        = Inl (ValueError src_can_only_be_user))
   \<and> (raw_environment ed ''sound_speed_indicative'' = Some v \<longrightarrow>
      calc_sound_speed co ed env ''file'' formula_source = Inr (Some v))
   \<and> calc_sound_speed co ed None ''user'' formula_source
        = Inl (ValueError ''`env_params` required for calculating sound speed'')"
  by (simp add: calc_seawater_absorption_def calc_sound_speed_def)

theorem sources_other_than_user_witness:
  "''file'' \<noteq> ''user''
   \<and> calc_seawater_absorption scenario_co file_ed scenario_env ''file'' ''FG''
        = Inl (ValueError src_can_only_be_user)
   \<and> raw_environment file_ed ''sound_speed_indicative'' = Some (Scalar 1480)
   \<and> calc_sound_speed scenario_co file_ed (Some scenario_env) ''file'' ''Mackenzie''
        = Inr (Some (Scalar 1480))
   \<and> calc_sound_speed scenario_co file_ed None ''user'' ''Mackenzie''
        = Inl (ValueError ''`env_params` required for calculating sound speed'')"
proof -
  have 1: "''file'' \<noteq> ''user''" by simp
  have 2: "raw_environment file_ed ''sound_speed_indicative'' = Some (Scalar 1480)"
    by (simp add: file_ed_def)
  show ?thesis
    using sources_other_than_user[of "''file''" scenario_co file_ed scenario_env "''FG''"
        "Scalar 1480" "Some scenario_env"] 1 2
      sources_other_than_user[of "''file''" scenario_co file_ed scenario_env "''Mackenzie''"
        "Scalar 1480" "Some scenario_env"]
    by simp
qed

text \<open>
  What lines 22 and 32 do: the ValueError is built and not raised, so an unrecognised
  source, and a file without the variable, give \<open>None\<close>.
\<close>

lemma calc_sound_speed_unrecognized:
  "src \<noteq> ''file'' \<Longrightarrow> src \<noteq> ''user'' \<Longrightarrow>
     calc_sound_speed co ed env src formula_source = Inr None"
  by (simp add: calc_sound_speed_def)

lemma calc_sound_speed_file_missing:
  "raw_environment ed ''sound_speed_indicative'' = None \<Longrightarrow>
     calc_sound_speed co ed env ''file'' formula_source = Inr None"
  by (simp add: calc_sound_speed_def)

text \<open>
  Claim C10 says that noise removal yields an \<open>Sv_clean\<close> bounded by \<open>Sv\<close>. The
  method yields nothing: on a calibrated \<open>ed\<close> it returns \<open>None\<close> and sets no
  \<open>Sv_clean\<close>.
\<close>

theorem remove_noise_yields_nothing:
  "remove_noise mvbs_ed pp_binned False ''zarr'' = (mvbs_ed, None)
   \<and> Sv mvbs_ed \<noteq> None \<and> Sv_clean mvbs_ed = None"
  by (simp add: remove_noise_def mvbs_ed_def scenario_ed_def)

text \<open>
  Claim C10 as amended. \<open>remove_noise\<close> is a stub: for every input it returns \<open>None\<close>
  and leaves \<open>ed\<close> unchanged, so it produces no noise-corrected value at all.
\<close>

theorem remove_noise_stub: "remove_noise ed pp save save_format = (ed, None)"
  by (simp add: remove_noise_def)

text \<open>
  Claim C5 says that an unimplemented mode raises a typed not-supported error and never
  prints a diagnostic and returns \<open>None\<close>. With \<open>MVBS_time_interval\<close> set,
  \<open>_get_tile_params\<close> prints the diagnostic and returns \<open>None\<close>; \<open>get_MVBS\<close> then fails
  on unpacking that \<open>None\<close>.
\<close>

theorem get_tile_params_prints_and_returns_None:
  "get_tile_params (pp_binned\<lparr>MVBS_time_interval := Some 30\<rparr>)
     = ([''Averaging by time interval is not yet implemented''], Inr None)
   \<and> get_MVBS mvbs_ed (pp_binned\<lparr>MVBS_time_interval := Some 30\<rparr>)
     = ([''Averaging by time interval is not yet implemented''],
        Inl (TypeError ''cannot unpack non-iterable NoneType object''))"
  by (simp add: get_tile_params_def get_MVBS_def pp_binned_def mvbs_ed_def get_source_def
      getattr_ed_def Let_def)

lemma get_tile_params_cases:
  "get_tile_params pp = (out, Inr (Some (p, r))) \<Longrightarrow>
     MVBS_time_interval pp = None \<and> MVBS_distance_interval pp = None
     \<and> MVBS_range_interval pp = None \<and> MVBS_ping_num pp = Some p
     \<and> MVBS_range_bin_num pp = Some r \<and> out = []"
  by (auto simp: get_tile_params_def split: if_splits option.splits)

lemma get_MVBS_returns:
  assumes "get_MVBS ed pp = (out, Inr m)"
  shows "MVBS_type pp = ''binned'' \<and> MVBS_time_interval pp = None
     \<and> MVBS_distance_interval pp = None \<and> MVBS_range_interval pp = None"
proof -
  obtain o' t where gt: "get_tile_params pp = (o', t)" by (cases "get_tile_params pp")
  from assms gt obtain p r where t: "t = Inr (Some (p, r))" and b: "MVBS_type pp = ''binned''"
    by (auto simp: get_MVBS_def Let_def bind_def
        split: if_splits sum.splits option.splits prod.splits)
  show ?thesis using get_tile_params_cases[OF gt[unfolded t]] b by simp
qed

text \<open>
  Claim C5 as amended. For a request with \<open>MVBS_type = 'rolling'\<close> or an interval-based
  tiling, \<open>get_MVBS\<close> never returns an array, partial, zero-filled or other. For an
  interval-based tiling \<open>_get_tile_params\<close> does not raise: it prints \<open>Averaging by ...
  is not yet implemented\<close> and returns \<open>None\<close>. The time interval is tested first, the
  distance and range intervals once \<open>MVBS_ping_num\<close> is given.
\<close>

theorem unimplemented_modes:
  assumes "MVBS_type pp = ''rolling'' \<or> MVBS_time_interval pp \<noteq> None
           \<or> MVBS_distance_interval pp \<noteq> None \<or> MVBS_range_interval pp \<noteq> None"
  shows "(\<forall>out m. get_MVBS ed pp \<noteq> (out, Inr m))
     \<and> (MVBS_time_interval pp \<noteq> None \<longrightarrow>
          get_tile_params pp
            = ([''Averaging by time interval is not yet implemented''], Inr None))
     \<and> (MVBS_time_interval pp = None \<and> MVBS_ping_num pp \<noteq> None
          \<and> MVBS_distance_interval pp \<noteq> None \<longrightarrow>
          get_tile_params pp
            = ([''Averaging by distance interval is not yet implemented''], Inr None))
     \<and> (MVBS_time_interval pp = None \<and> MVBS_ping_num pp \<noteq> None
          \<and> MVBS_distance_interval pp = None \<and> MVBS_range_interval pp \<noteq> None \<longrightarrow>
          get_tile_params pp
            = ([''Averaging by range inteval is not yet implemented''], Inr None))"
proof -
  have 1: "\<forall>out m. get_MVBS ed pp \<noteq> (out, Inr m)"
    using assms get_MVBS_returns by fastforce
  have 2: "MVBS_time_interval pp \<noteq> None \<longrightarrow>
          get_tile_params pp
            = ([''Averaging by time interval is not yet implemented''], Inr None)"
    by (simp add: get_tile_params_def)
  have 3: "MVBS_time_interval pp = None \<and> MVBS_ping_num pp \<noteq> None
          \<and> MVBS_distance_interval pp \<noteq> None \<longrightarrow>
          get_tile_params pp
            = ([''Averaging by distance interval is not yet implemented''], Inr None)"
    by (auto simp: get_tile_params_def)
  have 4: "MVBS_time_interval pp = None \<and> MVBS_ping_num pp \<noteq> None
          \<and> MVBS_distance_interval pp = None \<and> MVBS_range_interval pp \<noteq> None \<longrightarrow>
          get_tile_params pp
            = ([''Averaging by range inteval is not yet implemented''], Inr None)"
    by (auto simp: get_tile_params_def)
  show ?thesis using 1 2 3 4 by blast
qed

theorem unimplemented_modes_witness:
  "MVBS_type (pp_binned\<lparr>MVBS_type := ''rolling''\<rparr>) = ''rolling''
   \<and> (\<forall>out m. get_MVBS mvbs_ed (pp_binned\<lparr>MVBS_type := ''rolling''\<rparr>) \<noteq> (out, Inr m))
   \<and> MVBS_time_interval (pp_binned\<lparr>MVBS_time_interval := Some 30\<rparr>) \<noteq> None
   \<and> (\<forall>out m. get_MVBS mvbs_ed (pp_binned\<lparr>MVBS_time_interval := Some 30\<rparr>) \<noteq> (out, Inr m))
   \<and> get_tile_params (pp_binned\<lparr>MVBS_time_interval := Some 30\<rparr>)
       = ([''Averaging by time interval is not yet implemented''], Inr None)
   \<and> MVBS_distance_interval (pp_binned\<lparr>MVBS_distance_interval := Some 100\<rparr>) \<noteq> None
   \<and> get_tile_params (pp_binned\<lparr>MVBS_distance_interval := Some 100\<rparr>)
       = ([''Averaging by distance interval is not yet implemented''], Inr None)
   \<and> MVBS_range_interval (pp_binned\<lparr>MVBS_range_interval := Some 5\<rparr>) \<noteq> None
   \<and> get_tile_params (pp_binned\<lparr>MVBS_range_interval := Some 5\<rparr>)
       = ([''Averaging by range inteval is not yet implemented''], Inr None)"
proof -
  have a: "MVBS_type (pp_binned\<lparr>MVBS_type := ''rolling''\<rparr>) = ''rolling''" by simp
  have b: "MVBS_time_interval (pp_binned\<lparr>MVBS_time_interval := Some 30\<rparr>) \<noteq> None" by simp
  have c: "MVBS_distance_interval (pp_binned\<lparr>MVBS_distance_interval := Some 100\<rparr>) \<noteq> None"
    by simp
  have d: "MVBS_range_interval (pp_binned\<lparr>MVBS_range_interval := Some 5\<rparr>) \<noteq> None" by simp
  show ?thesis
    using unimplemented_modes[of "pp_binned\<lparr>MVBS_type := ''rolling''\<rparr>" mvbs_ed] a
      unimplemented_modes[of "pp_binned\<lparr>MVBS_time_interval := Some 30\<rparr>" mvbs_ed] b
      unimplemented_modes[of "pp_binned\<lparr>MVBS_distance_interval := Some 100\<rparr>" mvbs_ed] c
      unimplemented_modes[of "pp_binned\<lparr>MVBS_range_interval := Some 5\<rparr>" mvbs_ed] d
    by (simp add: pp_binned_def)
qed

text \<open>
  The rolling mode with tile sizes given: line 137 is \<open>pass\<close>, so \<open>return MVBS\<close> finds
  no value.
\<close>

lemma get_MVBS_rolling:
  assumes "MVBS_source pp = ''Sv'' \<or> MVBS_source pp = ''Sv_clean''"
    and "get_source ed (MVBS_source pp) = Inr sv"
    and "get_tile_params pp = ([], Inr (Some (p, r)))"
    and "MVBS_type pp = ''rolling''"
  shows "get_MVBS ed pp = ([], Inl (UnboundLocalError ''MVBS''))"
  using assms by (simp add: get_MVBS_def Let_def)

section \<open>Binned aggregation: \<open>get_MVBS\<close>\<close>

text \<open>
  The padding that xarray adds to an axis of length \<open>n\<close> for a window \<open>w\<close> fills the
  axis up to \<open>tiles n w\<close> whole windows.
\<close>

lemma pad_width_mod:
  assumes "0 < w"
  shows "pad_width w n = (if n mod w = 0 then 0 else w - n mod w)"
proof -
  have m: "int w * (int n div int w) - int n = - int (n mod w)"
    by (simp add: zmod_int minus_mod_eq_mult_div[symmetric])
  show ?thesis
  proof (cases "n mod w = 0")
    case True
    then show ?thesis using m by (simp add: pad_width_def Let_def)
  next
    case False
    then have "0 < n mod w" by simp
    moreover have "n mod w < w" using assms by simp
    ultimately show ?thesis using m False
      by (simp add: pad_width_def Let_def nat_diff_distrib' of_nat_diff)
  qed
qed

lemma pad_width_lt: "0 < w \<Longrightarrow> pad_width w n < w"
  by (simp add: pad_width_mod)

lemma tiles_mult:
  assumes "0 < w"
  shows "n + pad_width w n = tiles n w * w"
proof (cases "n mod w = 0")
  case True
  then have "w dvd n" by (simp add: mod_0_imp_dvd)
  then obtain q where q: "n = q * w" by (auto simp: dvd_def mult.commute)
  have e: "q * w + w - 1 = q * w + (w - 1)" using assms by simp
  have "(q * w + (w - 1)) div w = q + (w - 1) div w"
    using assms by (simp only: div_mult_self3)
  moreover have "(w - 1) div w = 0" using assms by simp
  ultimately have "(q * w + w - 1) div w = q" by (simp only: e)
  then show ?thesis using True q assms by (simp add: pad_width_mod tiles_def)
next
  case False
  define q where "q = n div w"
  define s where "s = n mod w"
  have n: "n = q * w + s" by (simp add: q_def s_def)
  have s: "0 < s" "s < w" using False assms by (simp_all add: s_def)
  have e: "n + w - 1 = (q + 1) * w + (s - 1)" using n s by (simp add: algebra_simps)
  have "((q + 1) * w + (s - 1)) div w = (q + 1) + (s - 1) div w"
    using assms by (simp only: div_mult_self3)
  moreover have "(s - 1) div w = 0" using s by simp
  ultimately have "(n + w - 1) div w = q + 1" by (simp only: e)
  then have t: "tiles n w = q + 1" by (simp add: tiles_def)
  have p: "pad_width w n = w - s" using False assms by (simp add: pad_width_mod s_def)
  have "n + (w - s) = (q + 1) * w" using n s by simp
  then show ?thesis by (simp only: p t)
qed

lemma tiles_less_iff:
  assumes "0 < w"
  shows "t < tiles n w \<longleftrightarrow> t * w < n"
proof -
  have "t < (n + w - 1) div w \<longleftrightarrow> (t + 1) * w \<le> n + w - 1"
    using assms by (metis Suc_eq_plus1 less_eq_Suc_le less_eq_div_iff_mult_less_eq mult.commute)
  also have "\<dots> \<longleftrightarrow> t * w < n" using assms by (auto simp: algebra_simps)
  finally show ?thesis by (simp add: tiles_def)
qed

lemma pad_width_0: "pad_width w 0 = 0"
  by (simp add: pad_width_def)

lemma pad_nan_length: "length (pad_nan pw rw m) = length m + pad_width pw (length m)"
  by (simp add: pad_nan_def Let_def)

lemma pad_nan_width:
  assumes rect: "\<forall>row\<in>set m. length row = R" and ne: "m \<noteq> []"
  shows "(case pad_nan pw rw m of [] \<Rightarrow> 0 | row # _ \<Rightarrow> length row) = R + pad_width rw R"
proof -
  obtain r rs where m: "m = r # rs" using ne by (cases m) auto
  then have "length r = R" using rect by simp
  then show ?thesis by (simp add: pad_nan_def Let_def m)
qed

lemma pad_nan_nth:
  assumes rect: "\<forall>row\<in>set m. length row = R"
    and j: "j < length m + pad_width pw (length m)"
    and k: "k < R + pad_width rw R"
  shows "pad_nan pw rw m ! j ! k = (if j < length m \<and> k < R then Some (m ! j ! k) else None)"
proof -
  have ne: "m \<noteq> []" using j by (auto simp: pad_width_0)
  then obtain r rs where m: "m = r # rs" by (cases m) auto
  then have r: "length r = R" using rect by simp
  let ?rows = "map (\<lambda>row. map Some row @ replicate (pad_width rw (length row)) None) m"
  have w: "(case ?rows of [] \<Rightarrow> 0 | row # _ \<Rightarrow> length row) = R + pad_width rw R"
    using r by (simp add: m)
  have p: "pad_nan pw rw m
             = ?rows @ replicate (pad_width pw (length m)) (replicate (R + pad_width rw R) None)"
    unfolding pad_nan_def Let_def w ..
  show ?thesis
  proof (cases "j < length m")
    case True
    then have len: "length (m ! j) = R" using rect by simp
    have "pad_nan pw rw m ! j = map Some (m ! j) @ replicate (pad_width rw R) None"
      using True len by (simp add: p nth_append)
    then show ?thesis using True len k by (simp add: nth_append)
  next
    case False
    then have "pad_nan pw rw m ! j = replicate (R + pad_width rw R) None"
      using j by (simp add: p nth_append)
    then show ?thesis using False k by simp
  qed
qed

lemma somes_append: "somes (xs @ ys) = somes xs @ somes ys"
  by (induction xs rule: somes.induct) simp_all

lemma somes_concat: "somes (concat xss) = concat (map somes xss)"
  by (induction xss) (simp_all add: somes_append)

lemma somes_map_if:
  "somes (map (\<lambda>b. if Q b then Some (f b) else None) xs) = map f (filter Q xs)"
  by (induction xs) simp_all

lemma somes_map_None: "somes (map (\<lambda>b. None) xs) = []"
  by (induction xs) simp_all

lemma concat_map_if:
  "concat (map (\<lambda>a. if Q a then f a else []) xs) = concat (map f (filter Q xs))"
  by (induction xs) simp_all

lemma filter_offset_less:
  "filter (\<lambda>b. lo + b < R) [0..<w] = [0..<min w (R - lo)]"
proof (induction w)
  case 0
  then show ?case by simp
next
  case (Suc w)
  show ?case
  proof (cases "lo + w < R")
    case True
    then have "min (Suc w) (R - lo) = Suc w" "min w (R - lo) = w" by simp_all
    then show ?thesis using Suc True by simp
  next
    case False
    then have "min (Suc w) (R - lo) = R - lo" "min w (R - lo) = R - lo" by simp_all
    then show ?thesis using Suc False by simp
  qed
qed

lemma map_offset_upt: "map (\<lambda>b. g (lo + b)) [0..<n] = map g [lo..<lo + n]"
proof -
  have "map g [lo..<lo + n] = map g (map (\<lambda>b. b + lo) [0..<n])"
    by (simp add: map_add_upt add.commute)
  then show ?thesis by (simp add: comp_def add.commute)
qed

lemma offset_min: "lo \<le> R \<Longrightarrow> lo + min w (R - lo) = min (lo + w) (R::nat)"
  by simp

text \<open>The cells of a block that are not padding are the samples of the tile.\<close>

lemma somes_block:
  assumes rect: "\<forall>row\<in>set m. length row = R"
    and pw: "0 < pw" and rw: "0 < rw"
    and tp: "tp < tiles (length m) pw" and tr: "tr < tiles R rw"
  shows "somes (block pw rw (pad_nan pw rw m) tp tr) = tile_samples m (length m) R pw rw tp tr"
proof -
  let ?P = "length m"
  let ?lp = "tp * pw" and ?lr = "tr * rw"
  have lp: "?lp < ?P" using tiles_less_iff[OF pw] tp by simp
  have lr: "?lr < R" using tiles_less_iff[OF rw] tr by simp
  have Pp: "?P + pad_width pw ?P = tiles ?P pw * pw" by (rule tiles_mult[OF pw])
  have Rp: "R + pad_width rw R = tiles R rw * rw" by (rule tiles_mult[OF rw])
  have ja: "?lp + a < ?P + pad_width pw ?P" if "a < pw" for a
  proof -
    have "?lp + a < (tp + 1) * pw" using that by simp
    also have "\<dots> \<le> tiles ?P pw * pw" using tp by (intro mult_le_mono1) simp
    finally show ?thesis using Pp by simp
  qed
  have kb: "?lr + b < R + pad_width rw R" if "b < rw" for b
  proof -
    have "?lr + b < (tr + 1) * rw" using that by simp
    also have "\<dots> \<le> tiles R rw * rw" using tr by (intro mult_le_mono1) simp
    finally show ?thesis using Rp by simp
  qed
  have cell: "pad_nan pw rw m ! (?lp + a) ! (?lr + b)
      = (if ?lp + a < ?P \<and> ?lr + b < R then Some (m ! (?lp + a) ! (?lr + b)) else None)"
    if "a < pw" "b < rw" for a b
    by (rule pad_nan_nth[OF rect ja[OF that(1)] kb[OF that(2)]])
  let ?hr = "min ((tr + 1) * rw) R" and ?hp = "min ((tp + 1) * pw) ?P"
  have hr: "?lr + min rw (R - ?lr) = ?hr" using lr by simp
  have hp: "?lp + min pw (?P - ?lp) = ?hp" using lp by simp
  have cols: "map (\<lambda>b. g (?lr + b)) (filter (\<lambda>b. ?lr + b < R) [0..<rw]) = map g [?lr..<?hr]"
    for g :: "nat \<Rightarrow> 'b"
  proof -
    have "map (\<lambda>b. g (?lr + b)) (filter (\<lambda>b. ?lr + b < R) [0..<rw])
        = map (\<lambda>b. g (?lr + b)) [0..<min rw (R - ?lr)]"
      by (simp only: filter_offset_less)
    also have "\<dots> = map g [?lr..<?lr + min rw (R - ?lr)]" by (rule map_offset_upt)
    finally show ?thesis by (simp only: hr)
  qed
  have rows: "map (\<lambda>a. g (?lp + a)) (filter (\<lambda>a. ?lp + a < ?P) [0..<pw]) = map g [?lp..<?hp]"
    for g :: "nat \<Rightarrow> 'b"
  proof -
    have "map (\<lambda>a. g (?lp + a)) (filter (\<lambda>a. ?lp + a < ?P) [0..<pw])
        = map (\<lambda>a. g (?lp + a)) [0..<min pw (?P - ?lp)]"
      by (simp only: filter_offset_less)
    also have "\<dots> = map g [?lp..<?lp + min pw (?P - ?lp)]" by (rule map_offset_upt)
    finally show ?thesis by (simp only: hp)
  qed
  have row: "somes (map (\<lambda>b. pad_nan pw rw m ! (?lp + a) ! (?lr + b)) [0..<rw])
      = (if ?lp + a < ?P then map (\<lambda>k. m ! (?lp + a) ! k) [?lr..<?hr] else [])"
    if a: "a < pw" for a
  proof (cases "?lp + a < ?P")
    case True
    have "map (\<lambda>b. pad_nan pw rw m ! (?lp + a) ! (?lr + b)) [0..<rw]
        = map (\<lambda>b. if ?lr + b < R then Some (m ! (?lp + a) ! (?lr + b)) else None) [0..<rw]"
      by (rule map_cong[OF refl]) (simp add: cell[OF a] True)
    then have "somes (map (\<lambda>b. pad_nan pw rw m ! (?lp + a) ! (?lr + b)) [0..<rw])
        = map (\<lambda>b. m ! (?lp + a) ! (?lr + b)) (filter (\<lambda>b. ?lr + b < R) [0..<rw])"
      by (simp only: somes_map_if)
    also have "\<dots> = map (\<lambda>k. m ! (?lp + a) ! k) [?lr..<?hr]" by (rule cols)
    finally show ?thesis using True by (simp only: if_True)
  next
    case False
    have "map (\<lambda>b. pad_nan pw rw m ! (?lp + a) ! (?lr + b)) [0..<rw] = map (\<lambda>b. None) [0..<rw]"
      by (rule map_cong[OF refl]) (simp add: cell[OF a] False)
    then have "somes (map (\<lambda>b. pad_nan pw rw m ! (?lp + a) ! (?lr + b)) [0..<rw]) = []"
      by (simp only: somes_map_None)
    then show ?thesis using False by (simp only: if_False)
  qed
  have "block pw rw (pad_nan pw rw m) tp tr
      = concat (map (\<lambda>a. map (\<lambda>b. pad_nan pw rw m ! (?lp + a) ! (?lr + b)) [0..<rw]) [0..<pw])"
    by (simp only: block_def)
  then have "somes (block pw rw (pad_nan pw rw m) tp tr)
      = concat (map somes
          (map (\<lambda>a. map (\<lambda>b. pad_nan pw rw m ! (?lp + a) ! (?lr + b)) [0..<rw]) [0..<pw]))"
    by (simp only: somes_concat)
  also have "\<dots> = concat (map (\<lambda>a. somes (map (\<lambda>b. pad_nan pw rw m ! (?lp + a) ! (?lr + b)) [0..<rw]))
          [0..<pw])"
    by (simp only: map_map comp_def)
  also have "\<dots> = concat (map (\<lambda>a. if ?lp + a < ?P
        then map (\<lambda>k. m ! (?lp + a) ! k) [?lr..<?hr] else []) [0..<pw])"
    by (rule arg_cong[where f = concat], rule map_cong[OF refl]) (simp only: row set_upt atLeastLessThan_iff)
  also have "\<dots> = concat (map (\<lambda>a. map (\<lambda>k. m ! (?lp + a) ! k) [?lr..<?hr])
        (filter (\<lambda>a. ?lp + a < ?P) [0..<pw]))"
    by (rule concat_map_if)
  also have "\<dots> = concat (map (\<lambda>j. map (\<lambda>k. m ! j ! k) [?lr..<?hr]) [?lp..<?hp])"
    by (rule arg_cong[where f = concat], rule rows)
  finally show ?thesis by (simp only: tile_samples_def)
qed

lemma tiles_0: "0 < w \<Longrightarrow> tiles 0 w = 0"
  by (simp add: tiles_def)

lemma coarsen_mean_2d_length:
  assumes pw: "0 < pw"
  shows "length (coarsen_mean_2d pw rw m) = tiles (length m) pw"
  using tiles_mult[OF pw, of "length m"] pw
  by (simp add: coarsen_mean_2d_def Let_def pad_nan_length)

lemma coarsen_mean_2d_nth:
  assumes rect: "\<forall>row\<in>set m. length row = R"
    and pw: "0 < pw" and rw: "0 < rw"
    and tp: "tp < tiles (length m) pw"
  shows "length (coarsen_mean_2d pw rw m ! tp) = tiles R rw"
    and "tr < tiles R rw \<Longrightarrow>
      coarsen_mean_2d pw rw m ! tp ! tr = mean (tile_samples m (length m) R pw rw tp tr)"
proof -
  have ne: "m \<noteq> []" using tp tiles_0[OF pw] by auto
  have w: "(case pad_nan pw rw m of [] \<Rightarrow> 0 | row # _ \<Rightarrow> length row) = tiles R rw * rw"
    using pad_nan_width[OF rect ne] tiles_mult[OF rw, of R] by simp
  have l: "length (pad_nan pw rw m) div pw = tiles (length m) pw"
    using tiles_mult[OF pw, of "length m"] pw by (simp add: pad_nan_length)
  have row: "coarsen_mean_2d pw rw m ! tp
      = map (\<lambda>tr. nanmean (block pw rw (pad_nan pw rw m) tp tr)) [0..<tiles R rw]"
    using tp rw by (simp add: coarsen_mean_2d_def Let_def w l)
  show "length (coarsen_mean_2d pw rw m ! tp) = tiles R rw" by (simp add: row)
  show "coarsen_mean_2d pw rw m ! tp ! tr = mean (tile_samples m (length m) R pw rw tp tr)"
    if tr: "tr < tiles R rw"
    using tr somes_block[OF rect pw rw tp tr] by (simp add: row nanmean_def)
qed

text \<open>
  Converting to the linear domain before tiling gives the linear values of the tile's
  samples.
\<close>

lemma tile_samples_map:
  assumes rect: "\<forall>row\<in>set m. length row = R"
  shows "tile_samples (map (map f) m) (length m) R pw rw tp tr
     = map f (tile_samples m (length m) R pw rw tp tr)"
proof -
  let ?ks = "[tr * rw..<min ((tr + 1) * rw) R]" and ?js = "[tp * pw..<min ((tp + 1) * pw) (length m)]"
  have inner: "map (\<lambda>k. map (map f) m ! j ! k) ?ks = map f (map (\<lambda>k. m ! j ! k) ?ks)"
    if "j \<in> set ?js" for j
  proof -
    have j: "j < length m" using that by simp
    then have len: "length (m ! j) = R" using rect by simp
    have "map (\<lambda>k. map (map f) m ! j ! k) ?ks = map (\<lambda>k. f (m ! j ! k)) ?ks"
      by (rule map_cong[OF refl]) (use j len in simp)
    then show ?thesis by (simp add: comp_def)
  qed
  have "map (\<lambda>j. map (\<lambda>k. map (map f) m ! j ! k) ?ks) ?js
      = map (\<lambda>j. map f (map (\<lambda>k. m ! j ! k) ?ks)) ?js"
    by (rule map_cong[OF refl]) (rule inner)
  then show ?thesis
    by (simp only: tile_samples_def map_concat map_map comp_def)
qed

lemma get_tile_params_sizes:
  assumes "MVBS_time_interval pp = None" and "MVBS_distance_interval pp = None"
    and "MVBS_range_interval pp = None"
    and "MVBS_ping_num pp = Some p" and "MVBS_range_bin_num pp = Some r"
  shows "get_tile_params pp = ([], Inr (Some (p, r)))"
  using assms by (simp add: get_tile_params_def)

lemma get_MVBS_binned_eq:
  assumes src: "MVBS_source pp = ''Sv'' \<or> MVBS_source pp = ''Sv_clean''"
    and ds: "getattr_ed ed (MVBS_source pp) = Some ds" and sv: "ds (MVBS_source pp) = Some sv"
    and ty: "MVBS_type pp = ''binned''"
    and tl: "get_tile_params pp = ([], Inr (Some (p, r)))"
    and p: "0 < p" and r: "0 < r"
  shows "get_MVBS ed pp = ([], Inr (map3 (\<lambda>x. 10 * log 10 x)
           (map (coarsen_mean_2d (nat p) (nat r)) (map3 (\<lambda>x. 10 powr (x / 10)) sv))))"
proof -
  have g: "get_source ed (MVBS_source pp) = Inr sv" using ds sv by (simp add: get_source_def)
  have c: "coarsen_mean p r a = Inr (map (coarsen_mean_2d (nat p) (nat r)) a)" for a
    using p r by (simp add: coarsen_mean_def)
  show ?thesis
    unfolding get_MVBS_def using src g ty tl by (simp add: Let_def c)
qed

text \<open>
  Claim C3. For a binned request with positive tile sizes \<open>p\<close> and \<open>r\<close> on a source
  array whose channels are all \<open>P\<close> pings by \<open>R\<close> range bins, \<open>get_MVBS\<close> returns, for
  every channel, \<open>tiles P p\<close> by \<open>tiles R r\<close> values, and the value of tile
  \<open>(tp, tr)\<close> is \<open>10 * log10\<close> of the arithmetic mean of \<open>10 ^ (dB / 10)\<close> over the
  samples of that tile: each dB sample is converted to linear power, the mean is taken in
  the linear domain over the samples that exist (the padding of a last, shorter tile is
  skipped), and the mean is converted back.
\<close>

theorem get_MVBS_binned:
  assumes src: "MVBS_source pp = ''Sv'' \<or> MVBS_source pp = ''Sv_clean''"
    and ds: "getattr_ed ed (MVBS_source pp) = Some ds" and sv: "ds (MVBS_source pp) = Some sv"
    and ty: "MVBS_type pp = ''binned''"
    and ti: "MVBS_time_interval pp = None" and di: "MVBS_distance_interval pp = None"
    and ri: "MVBS_range_interval pp = None"
    and pn: "MVBS_ping_num pp = Some p" and rn: "MVBS_range_bin_num pp = Some r"
    and p: "0 < p" and r: "0 < r"
    and rect: "\<forall>ch\<in>set sv. length ch = P \<and> (\<forall>row\<in>set ch. length row = R)"
    and c: "c < length sv" and tp: "tp < tiles P (nat p)" and tr: "tr < tiles R (nat r)"
  shows "\<exists>mvbs. get_MVBS ed pp = ([], Inr mvbs)
     \<and> length mvbs = length sv
     \<and> length (mvbs ! c) = tiles P (nat p)
     \<and> length (mvbs ! c ! tp) = tiles R (nat r)
     \<and> mvbs ! c ! tp ! tr = spec_MVBS (tile_samples (sv ! c) P R (nat p) (nat r) tp tr)"
proof -
  let ?pw = "nat p" and ?rw = "nat r"
  let ?lin = "map3 (\<lambda>x. 10 powr (x / 10)) sv"
  let ?m = "map (map (\<lambda>x. 10 powr (x / 10))) (sv ! c)"
  let ?mvbs = "map3 (\<lambda>x. 10 * log 10 x) (map (coarsen_mean_2d ?pw ?rw) ?lin)"
  have pw: "0 < ?pw" and rw: "0 < ?rw" using p r by simp_all
  have run: "get_MVBS ed pp = ([], Inr ?mvbs)"
    by (rule get_MVBS_binned_eq[OF src ds sv ty get_tile_params_sizes[OF ti di ri pn rn] p r])
  have "sv ! c \<in> set sv" using c by simp
  then have ch: "length (sv ! c) = P" "\<forall>row\<in>set (sv ! c). length row = R"
    using rect by blast+
  have lm: "length ?m = P" using ch by simp
  have rm: "\<forall>row\<in>set ?m. length row = R" using ch by simp
  have tp': "tp < tiles (length ?m) ?pw" using tp lm by simp
  have mc: "?mvbs ! c = map (map (\<lambda>x. 10 * log 10 x)) (coarsen_mean_2d ?pw ?rw ?m)"
    using c by (simp add: map3_def)
  have l1: "length ?mvbs = length sv" by (simp add: map3_def)
  have l2: "length (?mvbs ! c) = tiles P ?pw"
    using coarsen_mean_2d_length[OF pw, of ?rw ?m] lm by (simp add: mc)
  have tpl: "tp < length (coarsen_mean_2d ?pw ?rw ?m)"
    using coarsen_mean_2d_length[OF pw, of ?rw ?m] tp' by simp
  have l3: "length (?mvbs ! c ! tp) = tiles R ?rw"
    using coarsen_mean_2d_nth(1)[OF rm pw rw tp'] tpl by (simp add: mc)
  have trl: "tr < length (coarsen_mean_2d ?pw ?rw ?m ! tp)"
    using coarsen_mean_2d_nth(1)[OF rm pw rw tp'] tr by simp
  have "?mvbs ! c ! tp ! tr = 10 * log 10 (coarsen_mean_2d ?pw ?rw ?m ! tp ! tr)"
    using tpl trl by (simp add: mc)
  also have "\<dots> = 10 * log 10 (mean (tile_samples ?m (length ?m) R ?pw ?rw tp tr))"
    using coarsen_mean_2d_nth(2)[OF rm pw rw tp' tr] by simp
  also have "tile_samples ?m (length ?m) R ?pw ?rw tp tr
      = map (\<lambda>x. 10 powr (x / 10)) (tile_samples (sv ! c) P R ?pw ?rw tp tr)"
    using tile_samples_map[OF ch(2), of "\<lambda>x. 10 powr (x / 10)" ?pw ?rw tp tr] ch(1) by simp
  finally have v: "?mvbs ! c ! tp ! tr = spec_MVBS (tile_samples (sv ! c) P R ?pw ?rw tp tr)"
    by (simp add: spec_MVBS_def)
  show ?thesis using run l1 l2 l3 v by blast
qed

lemma mean_dB_example: "mean [0, 10, 10, 0] = 5"
  by (simp add: mean_def)

lemma spec_MVBS_example: "spec_MVBS [0, 10, 10, 0] = 10 * log 10 (11 / 2)"
  by (simp add: spec_MVBS_def mean_def)

lemma log_11_2: "log 10 (11 / 2) \<noteq> 1 / 2"
proof
  assume a: "log 10 (11 / 2) = 1 / 2"
  have "(10::real) powr (log 10 (11 / 2)) = 11 / 2" by simp
  then have "(10::real) powr (1 / 2) = 11 / 2" using a by simp
  then have s: "sqrt 10 = 11 / 2" by (simp only: powr_half_sqrt)
  have "(sqrt 10)\<^sup>2 = (10::real)" by simp
  then have "(11 / 2)\<^sup>2 = (10::real)" by (simp only: s)
  then show False by (simp add: power2_eq_square)
qed

text \<open>
  The linear-domain mean is not the mean of the dB values: on the block \<open>0, 10, 10, 0\<close>
  the two differ.
\<close>

lemma spec_MVBS_not_dB_mean: "spec_MVBS [0, 10, 10, 0] \<noteq> mean [0, 10, 10, 0]"
  using log_11_2 by (simp add: spec_MVBS_example mean_dB_example)

lemma sv44_tiles:
  "tile_samples (sv44 ! 0) 4 4 2 2 0 0 = [0, 10, 10, 0]"
  "tile_samples (sv44 ! 0) 4 4 2 2 0 1 = [20, 20, 20, 20]"
  "tile_samples (sv44 ! 0) 4 4 2 2 1 0 = [0, 0, 0, 0]"
  "tile_samples (sv44 ! 0) 4 4 2 2 1 1 = [10, 10, 10, 10]"
  by (simp_all add: tile_samples_def sv44_def upt_rec)

lemma list2: "length xs = 2 \<Longrightarrow> xs = [xs ! 0, xs ! 1]"
  by (cases xs; cases "tl xs") auto

lemma list1: "length xs = 1 \<Longrightarrow> xs = [xs ! 0]"
  by (cases xs) auto

text \<open>
  The aggregation scenario: 4 pings by 4 range bins tiled 2 by 2 give 2 by 2 values, each
  the linear-domain mean of its block in dB. For the block \<open>0, 10, 10, 0\<close> that value is
  \<open>10 * log10(5.5)\<close>, which is not the arithmetic mean 5 of the dB values.
\<close>

theorem get_MVBS_binned_witness:
  "MVBS_source pp_binned = ''Sv''
   \<and> getattr_ed mvbs_ed (MVBS_source pp_binned) = Some [''Sv'' \<mapsto> sv44]
   \<and> MVBS_type pp_binned = ''binned''
   \<and> MVBS_ping_num pp_binned = Some 2 \<and> MVBS_range_bin_num pp_binned = Some 2
   \<and> tiles 4 (nat 2) = 2
   \<and> get_MVBS mvbs_ed pp_binned
       = ([], Inr [[[spec_MVBS [0, 10, 10, 0], spec_MVBS [20, 20, 20, 20]],
                    [spec_MVBS [0, 0, 0, 0], spec_MVBS [10, 10, 10, 10]]]])
   \<and> spec_MVBS [0, 10, 10, 0] \<noteq> mean [0, 10, 10, 0]"
proof -
  have src: "MVBS_source pp_binned = ''Sv'' \<or> MVBS_source pp_binned = ''Sv_clean''"
    by (simp add: pp_binned_def)
  have ds: "getattr_ed mvbs_ed (MVBS_source pp_binned) = Some [''Sv'' \<mapsto> sv44]"
    by (simp add: getattr_ed_def mvbs_ed_def pp_binned_def)
  have sv: "[''Sv'' \<mapsto> sv44] (MVBS_source pp_binned) = Some sv44"
    by (simp add: pp_binned_def)
  have pp: "MVBS_type pp_binned = ''binned''" "MVBS_time_interval pp_binned = None"
    "MVBS_distance_interval pp_binned = None" "MVBS_range_interval pp_binned = None"
    "MVBS_ping_num pp_binned = Some 2" "MVBS_range_bin_num pp_binned = Some 2"
    by (simp_all add: pp_binned_def)
  have pos: "(0::int) < 2" by simp
  have rect: "\<forall>ch\<in>set sv44. length ch = 4 \<and> (\<forall>row\<in>set ch. length row = 4)"
    by (simp add: sv44_def)
  have c: "0 < length sv44" by (simp add: sv44_def)
  have n2: "nat 2 = 2" by simp
  have t: "tiles 4 2 = 2" by (simp add: tiles_def)
  have t0: "0 < tiles 4 (nat 2)" and t1: "1 < tiles 4 (nat 2)" using t by simp_all
  note inst = get_MVBS_binned[OF src ds sv pp pos pos rect c]
  from inst[OF t0 t0, unfolded n2 t sv44_tiles] obtain mvbs where run: "get_MVBS mvbs_ed pp_binned = ([], Inr mvbs)"
    and l1: "length mvbs = length sv44" and l2: "length (mvbs ! 0) = 2"
    and l30: "length (mvbs ! 0 ! 0) = 2"
    and v00: "mvbs ! 0 ! 0 ! 0 = spec_MVBS [0, 10, 10, 0]"
    by auto
  from inst[OF t0 t1, unfolded n2 t sv44_tiles] run have v01: "mvbs ! 0 ! 0 ! 1 = spec_MVBS [20, 20, 20, 20]"
    by auto
  from inst[OF t1 t0, unfolded n2 t sv44_tiles] run have l31: "length (mvbs ! 0 ! 1) = 2"
    and v10: "mvbs ! 0 ! 1 ! 0 = spec_MVBS [0, 0, 0, 0]"
    by auto
  from inst[OF t1 t1, unfolded n2 t sv44_tiles] run have v11: "mvbs ! 0 ! 1 ! 1 = spec_MVBS [10, 10, 10, 10]"
    by auto
  have "length mvbs = 1" using l1 by (simp add: sv44_def)
  then have "mvbs = [mvbs ! 0]" by (rule list1)
  also have "mvbs ! 0 = [mvbs ! 0 ! 0, mvbs ! 0 ! 1]" by (rule list2[OF l2])
  also have "mvbs ! 0 ! 0 = [mvbs ! 0 ! 0 ! 0, mvbs ! 0 ! 0 ! 1]" by (rule list2[OF l30])
  also have "mvbs ! 0 ! 1 = [mvbs ! 0 ! 1 ! 0, mvbs ! 0 ! 1 ! 1]" by (rule list2[OF l31])
  finally have "mvbs = [[[spec_MVBS [0, 10, 10, 0], spec_MVBS [20, 20, 20, 20]],
                    [spec_MVBS [0, 0, 0, 0], spec_MVBS [10, 10, 10, 10]]]]"
    by (simp only: v00 v01 v10 v11)
  then show ?thesis using run src ds pp t spec_MVBS_not_dB_mean by (simp add: pp_binned_def)
qed

section \<open>The correction-table resolver: \<open>calc_sa_correction\<close>\<close>

lemma length_np_unique_axis1: "length (np_unique_axis1 a) = card (set (columns a))"
  by (simp add: np_unique_axis1_def length_remdups_card_conv)

lemma columns_rect:
  assumes "\<forall>row\<in>set a. length row = P" and "a \<noteq> []"
  shows "columns a = map (\<lambda>j. map (\<lambda>r. r ! j) a) [0..<P]"
proof -
  obtain r rs where a: "a = r # rs" using assms(2) by (cases a) auto
  then have "length r = P" using assms(1) by simp
  then show ?thesis by (simp add: columns_def a)
qed

text \<open>
  When some channel does not have exactly one pulse length over the pings, the number of
  distinct columns is not one.
\<close>

lemma varying_columns:
  assumes rect: "\<forall>row\<in>set a. length row = P"
    and i: "i < length a"
    and var: "\<not> (\<exists>u. set (a ! i) = {u})"
  shows "card (set (columns a)) \<noteq> 1"
proof
  assume one: "card (set (columns a)) = 1"
  have ne: "a \<noteq> []" using i by auto
  have cols: "columns a = map (\<lambda>j. map (\<lambda>r. r ! j) a) [0..<P]"
    by (rule columns_rect[OF rect ne])
  have len: "length (a ! i) = P" using rect i by simp
  have P: "0 < P"
  proof (rule ccontr)
    assume "\<not> 0 < P"
    then have "columns a = []" using cols by simp
    then show False using one by simp
  qed
  obtain c where c: "set (columns a) = {c}" using one by (auto simp: card_1_singleton_iff)
  have col: "map (\<lambda>r. r ! j) a = c" if "j < P" for j
  proof -
    have "map (\<lambda>r. r ! j) a \<in> set (columns a)" using that by (auto simp: cols)
    then show ?thesis using c by simp
  qed
  have "a ! i ! j = c ! i" if "j < P" for j
  proof -
    have "map (\<lambda>r. r ! j) a ! i = c ! i" using col[OF that] by simp
    then show ?thesis using i by simp
  qed
  then have "\<forall>x\<in>set (a ! i). x = c ! i" using len by (auto simp: in_set_conv_nth)
  moreover have "a ! i \<noteq> []" using len P by auto
  ultimately have "set (a ! i) = {c ! i}" by (cases "a ! i") auto
  then show False using var by blast
qed

lemma size_check_fails:
  assumes rect: "\<forall>row\<in>set (raw_transmit_duration_nominal ed). length row = P"
    and align: "length (vend_frequency (vend ed)) = length (raw_transmit_duration_nominal ed)"
    and i: "i < length (raw_transmit_duration_nominal ed)"
    and var: "\<not> (\<exists>u. set (raw_transmit_duration_nominal ed ! i) = {u})"
  shows "length (raw_transmit_duration_nominal ed)
           * length (np_unique_axis1 (raw_transmit_duration_nominal ed))
         \<noteq> length (vend_frequency (vend ed))"
proof -
  let ?n = "length (raw_transmit_duration_nominal ed)"
  let ?k = "length (np_unique_axis1 (raw_transmit_duration_nominal ed))"
  have k: "?k \<noteq> 1"
    using varying_columns[OF rect i var] by (simp add: length_np_unique_axis1)
  have n: "0 < ?n" using i by auto
  have "?n * ?k \<noteq> ?n" using k n by simp
  then show ?thesis using align by simp
qed

text \<open>
  Claim C8. The dataset is an array of \<open>P\<close> pings per channel with as many channels
  as the vendor group. When some channel does not have exactly one pulse length over its
  pings (the pulse length changes, or there is no ping), the resolver raises and returns
  no correction; with the correction table present the exception is the ValueError
  \<open>Pulse length changes over time\<close> of line 186.
\<close>

theorem pulse_length_must_be_constant:
  assumes rect: "\<forall>row\<in>set (raw_transmit_duration_nominal ed). length row = P"
    and align: "length (vend_frequency (vend ed)) = length (raw_transmit_duration_nominal ed)"
    and i: "i < length (raw_transmit_duration_nominal ed)"
    and var: "\<not> (\<exists>u. set (raw_transmit_duration_nominal ed ! i) = {u})"
  shows "(\<exists>e. calc_sa_correction ragged_ok ed = Inl e)
     \<and> (vend_sa_correction (vend ed) \<noteq> None \<longrightarrow>
          calc_sa_correction ragged_ok ed = Inl (ValueError ''Pulse length changes over time''))"
  using size_check_fails[OF rect align i var]
  by (cases "vend_sa_correction (vend ed)") (simp_all add: calc_sa_correction_def Let_def)

text \<open>
  The same read the other way: the resolver succeeds only when every channel has
  exactly one pulse length over all pings.
\<close>

lemma calc_sa_correction_success_constant:
  assumes rect: "\<forall>row\<in>set (raw_transmit_duration_nominal ed). length row = P"
    and align: "length (vend_frequency (vend ed)) = length (raw_transmit_duration_nominal ed)"
    and i: "i < length (raw_transmit_duration_nominal ed)"
    and ok: "calc_sa_correction ragged_ok ed = Inr r"
  shows "\<exists>u. set (raw_transmit_duration_nominal ed ! i) = {u}"
proof (rule ccontr)
  assume var: "\<not> (\<exists>u. set (raw_transmit_duration_nominal ed ! i) = {u})"
  have "calc_sa_correction ragged_ok ed \<noteq> Inr r"
    using size_check_fails[OF rect align i var]
    by (cases "vend_sa_correction (vend ed)") (simp_all add: calc_sa_correction_def Let_def)
  then show False using ok by simp
qed

lemma mapM_Inr_map: "(\<forall>x\<in>set xs. f x = Inr (g x)) \<Longrightarrow> mapM f xs = Inr (map g xs)"
  by (induction xs) simp_all

lemma mapM_Inr_nth:
  "mapM f xs = Inr ys \<Longrightarrow> length ys = length xs \<and> (\<forall>i<length xs. f (xs ! i) = Inr (ys ! i))"
proof (induction xs arbitrary: ys)
  case Nil
  then show ?case by simp
next
  case (Cons x xs)
  from Cons.prems obtain y zs where y: "f x = Inr y" and zs: "mapM f xs = Inr zs"
    and ys: "ys = y # zs"
    by (auto simp: bind_eq_Inr)
  show ?case using Cons.IH[OF zs] y ys by (auto simp: nth_Cons split: nat.splits)
qed

lemma singleton_list: "distinct xs \<Longrightarrow> set xs = {u} \<Longrightarrow> xs = [u]"
proof -
  assume d: "distinct xs" and s: "set xs = {u}"
  have "length xs = card (set xs)" using d by (simp add: distinct_card)
  then have "length xs = 1" using s by simp
  then obtain x where "xs = [x]" by (cases xs) auto
  then show ?thesis using s by simp
qed

text \<open>With a constant pulse length on every channel there is one distinct column.\<close>

lemma np_unique_axis1_constant:
  assumes n: "0 < length a" and lu: "length u = length a"
    and const: "\<forall>i<length a. set (a ! i) = {u ! i}"
    and rect: "\<forall>row\<in>set a. length row = P"
  shows "np_unique_axis1 a = [u]"
proof -
  have ne: "a \<noteq> []" using n by auto
  have cols: "columns a = map (\<lambda>j. map (\<lambda>r. r ! j) a) [0..<P]"
    by (rule columns_rect[OF rect ne])
  have "a ! 0 \<in> set a" using n by simp
  then have l0: "length (a ! 0) = P" using rect by blast
  have "a ! 0 \<noteq> []" using const n by force
  then have P: "0 < P" using l0 by auto
  have col: "map (\<lambda>r. r ! j) a = u" if j: "j < P" for j
  proof (rule nth_equalityI)
    show "length (map (\<lambda>r. r ! j) a) = length u" using lu by simp
  next
    fix i assume "i < length (map (\<lambda>r. r ! j) a)"
    then have i: "i < length a" by simp
    then have "a ! i \<in> set a" by simp
    then have "length (a ! i) = P" using rect by blast
    then have "a ! i ! j \<in> set (a ! i)" using j by simp
    then have "a ! i ! j = u ! i" using const i by simp
    then show "map (\<lambda>r. r ! j) a ! i = u ! i" using i by simp
  qed
  have "set (columns a) = {u}"
  proof -
    have "set (columns a) = (\<lambda>j. map (\<lambda>r. r ! j) a) ` {0..<P}" by (simp add: cols)
    also have "\<dots> = (\<lambda>j. u) ` {0..<P}" by (rule image_cong[OF refl]) (simp add: col)
    also have "\<dots> = {u}" using P by auto
    finally show ?thesis .
  qed
  then have "remdups (columns a) = [u]" by (intro singleton_list) simp_all
  then show ?thesis by (simp add: np_unique_axis1_def)
qed

lemma squeeze_index_I0: "length js = 1 \<Longrightarrow> squeeze_index js = I0 (hd js)"
  by (cases js) (auto simp: squeeze_index_def split: list.splits)

lemma squeeze_index_I1: "length js \<noteq> 1 \<Longrightarrow> squeeze_index js = I1 js"
  by (cases js) (auto simp: squeeze_index_def split: list.splits)

lemma matches_iff:
  "j \<in> set (matches u row) \<longleftrightarrow>
     j < length row \<and> \<bar>u - row ! j\<bar> \<le> 1 / 10 ^ 8 + 1 / 10 ^ 5 * \<bar>row ! j\<bar>"
  by (auto simp: matches_def argwhere_def isclose_def)

lemma matches_less: "list_all (\<lambda>j. j < length row) (matches u row)"
  by (simp add: list_all_iff matches_iff)

text \<open>
  The resolver on a well-formed dataset of at least two channels with constant pulse
  lengths: what is left after the two checks and the index computation.
\<close>

lemma calc_sa_correction_unfold:
  assumes n: "2 \<le> length (raw_transmit_duration_nominal ed)"
    and lu: "length u = length (raw_transmit_duration_nominal ed)"
    and const: "\<forall>i<length (raw_transmit_duration_nominal ed).
                  set (raw_transmit_duration_nominal ed ! i) = {u ! i}"
    and rect: "\<forall>row\<in>set (raw_transmit_duration_nominal ed). length row = P"
    and lf: "length (vend_frequency (vend ed)) = length (raw_transmit_duration_nominal ed)"
    and lp: "length (vend_pulse_length (vend ed)) = length (raw_transmit_duration_nominal ed)"
    and sa: "vend_sa_correction (vend ed) = Some sat"
  shows "calc_sa_correction ragged_ok ed =
     bind (np_array ragged_ok index_shape
             (map (\<lambda>i. squeeze_index (matches (u ! i) (vend_pulse_length (vend ed) ! i)))
                [0..<length u])) (\<lambda>idx_arr.
     bind (mapM (\<lambda>(ch, x). take_index ch x) (zip sat idx_arr)) (\<lambda>sels.
     bind (np_array ragged_ok sel_shape sels) (\<lambda>sa_correction.
     bind (xr_DataArray sa_correction) (\<lambda>da.
     assign_coords da (vend_frequency (vend ed))))))"
proof -
  let ?a = "raw_transmit_duration_nominal ed"
  let ?plt = "vend_pulse_length (vend ed)"
  have n0: "0 < length ?a" using n by auto
  have un: "np_unique_axis1 ?a = [u]"
    by (rule np_unique_axis1_constant[OF n0 lu const rect])
  have sq: "squeeze_cols (length ?a) [u] = A1 u"
    using n by (simp add: squeeze_cols_def Let_def)
  have mi: "match_index (A1 u) ?plt i = Inr (squeeze_index (matches (u ! i) (?plt ! i)))"
    if "i \<in> set [0..<length ?plt]" for i
    using that lp lu by (simp add: match_index_def nd_index_def np_isclose_def matches_def)
  have idx: "mapM (match_index (A1 u) ?plt) [0..<length ?plt]
      = Inr (map (\<lambda>i. squeeze_index (matches (u ! i) (?plt ! i))) [0..<length u])"
    using mapM_Inr_map[of "[0..<length ?plt]" "match_index (A1 u) ?plt"
        "\<lambda>i. squeeze_index (matches (u ! i) (?plt ! i))"] mi lp lu
    by simp
  show ?thesis
    unfolding calc_sa_correction_def Let_def
    using sa lf by (simp add: un sq idx)
qed

lemma homogeneousI: "(\<forall>y\<in>set xs. shape y = s) \<Longrightarrow> homogeneous shape xs"
  by (cases xs) (auto simp: homogeneous_def list_all_iff)

lemma homogeneous_nth:
  assumes "homogeneous shape xs" and "i < length xs" and "k < length xs"
  shows "shape (xs ! k) = shape (xs ! i)"
proof -
  obtain x rest where xs: "xs = x # rest" using assms(2) by (cases xs) auto
  have all: "\<forall>y\<in>set xs. shape y = shape x"
    using assms(1) by (simp add: homogeneous_def xs list_all_iff)
  have "xs ! k \<in> set xs" "xs ! i \<in> set xs" using assms(2,3) by simp_all
  then show ?thesis using all by simp
qed

lemma np_array_Inr:
  "np_array ragged_ok shape xs = Inr ys \<Longrightarrow> ys = xs \<and> (homogeneous shape xs \<or> ragged_ok)"
  by (auto simp: np_array_def split: if_splits)

lemma np_array_homogeneous: "homogeneous shape xs \<Longrightarrow> np_array ragged_ok shape xs = Inr xs"
  by (simp add: np_array_def)

lemma xr_DataArray_scalars:
  "(\<forall>s\<in>set data. sel_shape s = None) \<Longrightarrow> xr_DataArray data = Inr data"
  by (cases data; cases "hd data") (auto simp: xr_DataArray_def)

lemma xr_DataArray_Inr: "xr_DataArray data = Inr da \<Longrightarrow> da = data"
  by (auto simp: xr_DataArray_def split: list.splits sel.splits if_splits)

lemma xr_DataArray_vectors:
  assumes "homogeneous sel_shape data" and "data \<noteq> []" and "sel_shape (data ! 0) = Some c"
  shows "\<exists>e. xr_DataArray data = Inl e"
proof -
  obtain s rest where d: "data = s # rest" using assms(2) by (cases data) auto
  then obtain vs where "s = S1 vs" using assms(3) by (cases s) auto
  then show ?thesis using assms(1) d by (simp add: xr_DataArray_def)
qed

lemma assign_coords_Inr: "assign_coords da f = Inr r \<Longrightarrow> r = da"
  by (auto simp: assign_coords_def split: if_splits)

lemma take_index_shape: "take_index ch x = Inr s \<Longrightarrow> sel_shape s = index_shape x"
  by (cases x) (auto simp: take_index_def split: if_splits)

lemma take_index_I1: "take_index ch (I1 js) = Inr s \<Longrightarrow> s = S1 (map (\<lambda>j. ch ! j) js)"
  by (auto simp: take_index_def split: if_splits)

lemma take_index_I0: "j < length ch \<Longrightarrow> take_index ch (I0 j) = Inr (S0 (ch ! j))"
  by (simp add: take_index_def)

lemma calc_sa_correction_unique:
  assumes n: "2 \<le> length (raw_transmit_duration_nominal ed)"
    and lu: "length u = length (raw_transmit_duration_nominal ed)"
    and const: "\<forall>i<length (raw_transmit_duration_nominal ed).
                  set (raw_transmit_duration_nominal ed ! i) = {u ! i}"
    and rect: "\<forall>row\<in>set (raw_transmit_duration_nominal ed). length row = P"
    and lf: "length (vend_frequency (vend ed)) = length (raw_transmit_duration_nominal ed)"
    and lp: "length (vend_pulse_length (vend ed)) = length (raw_transmit_duration_nominal ed)"
    and sa: "vend_sa_correction (vend ed) = Some sat"
    and ls: "length sat = length (raw_transmit_duration_nominal ed)"
    and lr: "\<forall>i<length u. length (sat ! i) = length (vend_pulse_length (vend ed) ! i)"
    and one: "\<forall>i<length u. length (matches (u ! i) (vend_pulse_length (vend ed) ! i)) = 1"
  shows "calc_sa_correction ragged_ok ed
     = Inr (map (\<lambda>i. S0 (sat ! i ! hd (matches (u ! i) (vend_pulse_length (vend ed) ! i))))
         [0..<length u])"
proof -
  let ?plt = "vend_pulse_length (vend ed)"
  let ?M = "\<lambda>i. matches (u ! i) (?plt ! i)"
  let ?idx = "map (\<lambda>i. squeeze_index (?M i)) [0..<length u]"
  let ?sels = "map (\<lambda>i. S0 (sat ! i ! hd (?M i))) [0..<length u]"
  have idx: "?idx = map (\<lambda>i. I0 (hd (?M i))) [0..<length u]"
    by (rule map_cong[OF refl]) (use one in \<open>simp add: squeeze_index_I0\<close>)
  have h1: "homogeneous index_shape ?idx"
    by (rule homogeneousI[where s = None]) (auto simp: idx)
  have a1: "np_array ragged_ok index_shape ?idx = Inr ?idx"
    by (rule np_array_homogeneous[OF h1])
  have hd_less: "hd (?M i) < length (sat ! i)" if i: "i < length u" for i
  proof -
    have "?M i \<noteq> []" using one i by auto
    then have "hd (?M i) \<in> set (?M i)" by simp
    then show ?thesis using lr i by (simp add: matches_iff)
  qed
  have zip_eq: "zip sat ?idx = map (\<lambda>i. (sat ! i, I0 (hd (?M i)))) [0..<length u]"
    unfolding idx using ls lu by (intro nth_equalityI) simp_all
  have "mapM (\<lambda>(ch, x). take_index ch x) (zip sat ?idx)
      = Inr (map (\<lambda>(ch, x). S0 (ch ! (case x of I0 j \<Rightarrow> j | I1 _ \<Rightarrow> 0))) (zip sat ?idx))"
    by (rule mapM_Inr_map) (auto simp: zip_eq take_index_I0 hd_less)
  also have "map (\<lambda>(ch, x). S0 (ch ! (case x of I0 j \<Rightarrow> j | I1 _ \<Rightarrow> 0))) (zip sat ?idx) = ?sels"
    by (simp add: zip_eq comp_def)
  finally have m: "mapM (\<lambda>(ch, x). take_index ch x) (zip sat ?idx) = Inr ?sels" .
  have h2: "homogeneous sel_shape ?sels"
    by (rule homogeneousI[where s = None]) auto
  have a2: "np_array ragged_ok sel_shape ?sels = Inr ?sels"
    by (rule np_array_homogeneous[OF h2])
  have x: "xr_DataArray ?sels = Inr ?sels"
    by (rule xr_DataArray_scalars) auto
  have c: "assign_coords ?sels (vend_frequency (vend ed)) = Inr ?sels"
    using lf lu by (simp add: assign_coords_def)
  show ?thesis
    unfolding calc_sa_correction_unfold[OF n lu const rect lf lp sa]
    by (simp only: a1 bind_Inr m a2 x c)
qed

lemma calc_sa_correction_not_unique:
  assumes n: "2 \<le> length (raw_transmit_duration_nominal ed)"
    and lu: "length u = length (raw_transmit_duration_nominal ed)"
    and const: "\<forall>i<length (raw_transmit_duration_nominal ed).
                  set (raw_transmit_duration_nominal ed ! i) = {u ! i}"
    and rect: "\<forall>row\<in>set (raw_transmit_duration_nominal ed). length row = P"
    and lf: "length (vend_frequency (vend ed)) = length (raw_transmit_duration_nominal ed)"
    and lp: "length (vend_pulse_length (vend ed)) = length (raw_transmit_duration_nominal ed)"
    and sa: "vend_sa_correction (vend ed) = Some sat"
    and ls: "length sat = length (raw_transmit_duration_nominal ed)"
    and i: "i < length u"
    and many: "length (matches (u ! i) (vend_pulse_length (vend ed) ! i)) \<noteq> 1"
    and ok: "calc_sa_correction ragged_ok ed = Inr r"
  shows "r ! i = S1 (map (\<lambda>j. sat ! i ! j) (matches (u ! i) (vend_pulse_length (vend ed) ! i)))"
    and "ragged_ok"
proof -
  let ?plt = "vend_pulse_length (vend ed)"
  let ?M = "\<lambda>i. matches (u ! i) (?plt ! i)"
  let ?idx = "map (\<lambda>i. squeeze_index (?M i)) [0..<length u]"
  from ok[unfolded calc_sa_correction_unfold[OF n lu const rect lf lp sa]]
  obtain idx_arr sels sa_correction da where
    a1: "np_array ragged_ok index_shape ?idx = Inr idx_arr"
    and m: "mapM (\<lambda>(ch, x). take_index ch x) (zip sat idx_arr) = Inr sels"
    and a2: "np_array ragged_ok sel_shape sels = Inr sa_correction"
    and x: "xr_DataArray sa_correction = Inr da"
    and c: "assign_coords da (vend_frequency (vend ed)) = Inr r"
    by (auto simp: bind_eq_Inr)
  have e1: "idx_arr = ?idx" and hom1: "homogeneous index_shape ?idx \<or> ragged_ok"
    using np_array_Inr[OF a1] by simp_all
  have e2: "sa_correction = sels" using np_array_Inr[OF a2] by simp
  have e3: "da = sa_correction" by (rule xr_DataArray_Inr[OF x])
  have e4: "r = da" by (rule assign_coords_Inr[OF c])
  have r: "r = sels" using e2 e3 e4 by simp
  have lz: "length (zip sat ?idx) = length u" using ls lu by simp
  note nth = mapM_Inr_nth[OF m[unfolded e1]]
  have lsel: "length sels = length u" using nth lz by simp
  have tk: "take_index (sat ! k) (squeeze_index (?M k)) = Inr (sels ! k)" if k: "k < length u" for k
  proof -
    have "(\<lambda>(ch, x). take_index ch x) (zip sat ?idx ! k) = Inr (sels ! k)"
      using nth k lz by simp
    then show ?thesis using k ls lu by simp
  qed
  have "take_index (sat ! i) (I1 (?M i)) = Inr (sels ! i)"
    using tk[OF i] squeeze_index_I1[OF many] by simp
  then show "r ! i = S1 (map (\<lambda>j. sat ! i ! j) (?M i))"
    unfolding r by (rule take_index_I1)
  show ragged_ok
  proof (rule ccontr)
    assume "\<not> ragged_ok"
    then have hom: "homogeneous index_shape ?idx" using hom1 by simp
    have li: "length ?idx = length u" by simp
    have shi: "index_shape (?idx ! k) = Some (length (?M i))" if k: "k < length u" for k
    proof -
      have "index_shape (?idx ! k) = index_shape (?idx ! i)"
        using homogeneous_nth[OF hom] i k li by metis
      also have "\<dots> = Some (length (?M i))"
        using i squeeze_index_I1[OF many] by simp
      finally show ?thesis .
    qed
    have shs: "sel_shape (sels ! k) = Some (length (?M i))" if k: "k < length u" for k
      using take_index_shape[OF tk[OF k]] shi[OF k] k by simp
    have "\<forall>s\<in>set sels. sel_shape s = Some (length (?M i))"
      using shs lsel by (auto simp: in_set_conv_nth)
    then have h2: "homogeneous sel_shape sels" by (rule homogeneousI)
    have ne: "sels \<noteq> []" using lsel i by auto
    have "0 < length u" using i by auto
    then have s0: "sel_shape (sels ! 0) = Some (length (?M i))" by (rule shs)
    obtain e where "xr_DataArray sels = Inl e"
      using xr_DataArray_vectors[OF h2 ne s0] by blast
    then show False using x e2 by simp
  qed
qed

text \<open>
  Claim C6 as amended, for a well-formed dataset of at least two channels with constant
  pulse lengths \<open>u\<close>. An entry matches when it is close to the transmitted pulse length
  in the sense of \<open>np.isclose\<close>, \<open>|u - entry| <= 1e-8 + 1e-5 * |entry|\<close>, not when it is
  equal. When every channel has exactly one match the resolver returns the correction
  of that entry for each channel. The resolver never picks one of several matches: for a
  channel with no match or several, a result, if there is one, holds the whole selection
  of that channel, and there is a result only with a numpy that accepts ragged lists;
  otherwise the array construction of lines 190 and 192 raises.
\<close>

theorem calc_sa_correction_matching:
  assumes n: "2 \<le> length (raw_transmit_duration_nominal ed)"
    and lu: "length u = length (raw_transmit_duration_nominal ed)"
    and const: "\<forall>i<length (raw_transmit_duration_nominal ed).
                  set (raw_transmit_duration_nominal ed ! i) = {u ! i}"
    and rect: "\<forall>row\<in>set (raw_transmit_duration_nominal ed). length row = P"
    and lf: "length (vend_frequency (vend ed)) = length (raw_transmit_duration_nominal ed)"
    and lp: "length (vend_pulse_length (vend ed)) = length (raw_transmit_duration_nominal ed)"
    and sa: "vend_sa_correction (vend ed) = Some sat"
    and ls: "length sat = length (raw_transmit_duration_nominal ed)"
    and lr: "\<forall>i<length u. length (sat ! i) = length (vend_pulse_length (vend ed) ! i)"
  shows "(j \<in> set (matches (u ! i) (vend_pulse_length (vend ed) ! i)) \<longleftrightarrow>
            j < length (vend_pulse_length (vend ed) ! i)
            \<and> \<bar>u ! i - vend_pulse_length (vend ed) ! i ! j\<bar>
                \<le> 1 / 10 ^ 8 + 1 / 10 ^ 5 * \<bar>vend_pulse_length (vend ed) ! i ! j\<bar>)
     \<and> ((\<forall>k<length u. length (matches (u ! k) (vend_pulse_length (vend ed) ! k)) = 1) \<longrightarrow>
          calc_sa_correction ragged_ok ed
            = Inr (map (\<lambda>k. S0 (sat ! k ! hd (matches (u ! k) (vend_pulse_length (vend ed) ! k))))
                [0..<length u]))
     \<and> (i < length u \<and> length (matches (u ! i) (vend_pulse_length (vend ed) ! i)) \<noteq> 1 \<longrightarrow>
          (\<forall>r. calc_sa_correction ragged_ok ed = Inr r \<longrightarrow>
             ragged_ok
             \<and> r ! i = S1 (map (\<lambda>j. sat ! i ! j)
                          (matches (u ! i) (vend_pulse_length (vend ed) ! i)))))"
  using matches_iff[of j "u ! i" "vend_pulse_length (vend ed) ! i"]
    calc_sa_correction_unique[OF n lu const rect lf lp sa ls lr, of ragged_ok]
    calc_sa_correction_not_unique[OF n lu const rect lf lp sa ls, of i ragged_ok]
  by blast

lemma all_less_2: "(\<forall>i<2. Q i) \<longleftrightarrow> Q (0::nat) \<and> Q 1"
  by (auto simp: less_2_cases_iff)

lemma upt_2: "[0..<2] = [0, 1]"
  by (simp add: upt_rec)

lemma sa_ed_fields:
  "raw_transmit_duration_nominal sa_ed = [[100 + 1 / 10 ^ 7, 100 + 1 / 10 ^ 7], [200, 200]]"
  "vend sa_ed = sa_vend"
  "raw_transmit_duration_nominal ambiguous_ed
     = [[100 + 1 / 10 ^ 7, 100 + 1 / 10 ^ 7], [200, 200]]"
  "vend ambiguous_ed = sa_vend\<lparr>vend_pulse_length := [[100, 300], [200, 200 + 1 / 10 ^ 4]]\<rparr>"
  "raw_transmit_duration_nominal varying_ed = [[100 + 1 / 10 ^ 7, 100 + 1 / 10 ^ 7], [200, 400]]"
  "vend varying_ed = sa_vend"
  by (simp_all add: sa_ed_def ambiguous_ed_def varying_ed_def)

lemma sa_matches:
  "matches (100 + 1 / 10 ^ 7) [100, 300] = [0]"
  "matches 200 [200, 400] = [0]"
  "matches 200 [200, 200 + 1 / 10 ^ 4] = [0, 1]"
  by (simp_all add: matches_def argwhere_def isclose_def upt_2)

lemmas sa_matches_simps = sa_matches sa_matches[simplified]

theorem pulse_length_must_be_constant_witness:
  "length (vend_frequency (vend varying_ed)) = length (raw_transmit_duration_nominal varying_ed)
   \<and> 1 < length (raw_transmit_duration_nominal varying_ed)
   \<and> raw_transmit_duration_nominal varying_ed ! 1 = [200, 400]
   \<and> \<not> (\<exists>u. set (raw_transmit_duration_nominal varying_ed ! 1) = {u})
   \<and> vend_sa_correction (vend varying_ed) \<noteq> None
   \<and> calc_sa_correction False varying_ed = Inl (ValueError ''Pulse length changes over time'')"
proof -
  have rect: "\<forall>row\<in>set (raw_transmit_duration_nominal varying_ed). length row = 2"
    by (simp add: sa_ed_fields)
  have align: "length (vend_frequency (vend varying_ed))
                 = length (raw_transmit_duration_nominal varying_ed)"
    by (simp add: sa_ed_fields sa_vend_def)
  have i: "1 < length (raw_transmit_duration_nominal varying_ed)"
    by (simp add: sa_ed_fields)
  have row: "raw_transmit_duration_nominal varying_ed ! 1 = [200, 400]"
    by (simp add: sa_ed_fields)
  have var: "\<not> (\<exists>u. set (raw_transmit_duration_nominal varying_ed ! 1) = {u})"
    unfolding row by (auto simp: doubleton_eq_iff)
  have sa: "vend_sa_correction (vend varying_ed) \<noteq> None"
    by (simp add: sa_ed_fields sa_vend_def)
  show ?thesis
    using pulse_length_must_be_constant[OF rect align i var, of False] align i row var sa
    by simp
qed

text \<open>
  Claim C6 says that the resolver raises whenever some channel has no match or several.
  The source has no check of the number of matches. Channel 1 of this dataset has two
  table entries within tolerance of the transmitted 200; with a numpy that builds object
  arrays from ragged lists (before 1.24) the resolver returns, without an exception, a
  result whose entry for channel 1 holds both corrections, and with a later numpy the
  only exception is the one \<open>np.array\<close> raises for the ragged list of line 190.
\<close>

theorem ambiguous_match_returned:
  "matches 200 (vend_pulse_length (vend ambiguous_ed) ! 1) = [0, 1]
   \<and> calc_sa_correction True ambiguous_ed = Inr [S0 1, S1 [2, 4]]
   \<and> calc_sa_correction False ambiguous_ed
       = Inl (ValueError ''setting an array element with a sequence'')"
proof -
  let ?u = "[100 + 1 / 10 ^ 7, 200 :: real]"
  have n: "2 \<le> length (raw_transmit_duration_nominal ambiguous_ed)"
    and lu: "length ?u = length (raw_transmit_duration_nominal ambiguous_ed)"
    and const: "\<forall>i<length (raw_transmit_duration_nominal ambiguous_ed).
                  set (raw_transmit_duration_nominal ambiguous_ed ! i) = {?u ! i}"
    and rect: "\<forall>row\<in>set (raw_transmit_duration_nominal ambiguous_ed). length row = 2"
    and lf: "length (vend_frequency (vend ambiguous_ed))
               = length (raw_transmit_duration_nominal ambiguous_ed)"
    and lp: "length (vend_pulse_length (vend ambiguous_ed))
               = length (raw_transmit_duration_nominal ambiguous_ed)"
    and sa: "vend_sa_correction (vend ambiguous_ed) = Some [[1, 3], [2, 4]]"
    by (simp_all add: sa_ed_fields sa_vend_def All_less_Suc)
  have m: "matches 200 (vend_pulse_length (vend ambiguous_ed) ! 1) = [0, 1]"
    by (simp add: sa_ed_fields sa_vend_def sa_matches_simps)
  have t: "calc_sa_correction True ambiguous_ed = Inr [S0 1, S1 [2, 4]]"
    unfolding calc_sa_correction_unfold[OF n lu const rect lf lp sa]
    by (simp add: sa_ed_fields sa_vend_def upt_2 sa_matches_simps squeeze_index_def np_array_def
        take_index_def xr_DataArray_def homogeneous_def assign_coords_def)
  have f: "calc_sa_correction False ambiguous_ed
      = Inl (ValueError ''setting an array element with a sequence'')"
    unfolding calc_sa_correction_unfold[OF n lu const rect lf lp sa]
    by (simp add: sa_ed_fields sa_vend_def upt_2 sa_matches_simps squeeze_index_def np_array_def
        homogeneous_def)
  show ?thesis using m t f by simp
qed

text \<open>
  The test of the specification: the table entry 100 matches the transmitted
  100.0000001 and its correction is returned.
\<close>

theorem calc_sa_correction_matching_witness:
  "2 \<le> length (raw_transmit_duration_nominal sa_ed)
   \<and> raw_transmit_duration_nominal sa_ed = [[100 + 1 / 10 ^ 7, 100 + 1 / 10 ^ 7], [200, 200]]
   \<and> vend_pulse_length (vend sa_ed) = [[100, 300], [200, 400]]
   \<and> vend_sa_correction (vend sa_ed) = Some [[1, 3], [2, 4]]
   \<and> 0 \<in> set (matches (100 + 1 / 10 ^ 7) [100, 300])
   \<and> length (matches (100 + 1 / 10 ^ 7) [100, 300]) = 1
   \<and> length (matches 200 [200, 400]) = 1
   \<and> calc_sa_correction False sa_ed = Inr [S0 1, S0 2]
   \<and> length (matches 200 (vend_pulse_length (vend ambiguous_ed) ! 1)) \<noteq> 1
   \<and> (\<forall>r. calc_sa_correction False ambiguous_ed \<noteq> Inr r)"
proof -
  let ?u = "[100 + 1 / 10 ^ 7, 200 :: real]"
  let ?sat = "[[1, 3], [2, 4 :: real]]"
  have n: "2 \<le> length (raw_transmit_duration_nominal sa_ed)"
    and lu: "length ?u = length (raw_transmit_duration_nominal sa_ed)"
    and const: "\<forall>i<length (raw_transmit_duration_nominal sa_ed).
                  set (raw_transmit_duration_nominal sa_ed ! i) = {?u ! i}"
    and rect: "\<forall>row\<in>set (raw_transmit_duration_nominal sa_ed). length row = 2"
    and lf: "length (vend_frequency (vend sa_ed)) = length (raw_transmit_duration_nominal sa_ed)"
    and lp: "length (vend_pulse_length (vend sa_ed)) = length (raw_transmit_duration_nominal sa_ed)"
    and sa: "vend_sa_correction (vend sa_ed) = Some ?sat"
    and ls: "length ?sat = length (raw_transmit_duration_nominal sa_ed)"
    and lr: "\<forall>i<length ?u. length (?sat ! i) = length (vend_pulse_length (vend sa_ed) ! i)"
    by (simp_all add: sa_ed_fields sa_vend_def All_less_Suc)
  have one: "\<forall>k<length ?u. length (matches (?u ! k) (vend_pulse_length (vend sa_ed) ! k)) = 1"
    by (simp add: sa_ed_fields sa_vend_def All_less_Suc sa_matches_simps)
  have plt: "vend_pulse_length (vend sa_ed) = [[100, 300], [200, 400]]"
    by (simp add: sa_ed_fields sa_vend_def)
  have ok: "calc_sa_correction False sa_ed = Inr [S0 1, S0 2]"
    using calc_sa_correction_matching[OF n lu const rect lf lp sa ls lr, of 0 0 False] one
    by (simp add: plt upt_2 sa_matches_simps)
  have n': "2 \<le> length (raw_transmit_duration_nominal ambiguous_ed)"
    and lu': "length ?u = length (raw_transmit_duration_nominal ambiguous_ed)"
    and const': "\<forall>i<length (raw_transmit_duration_nominal ambiguous_ed).
                  set (raw_transmit_duration_nominal ambiguous_ed ! i) = {?u ! i}"
    and rect': "\<forall>row\<in>set (raw_transmit_duration_nominal ambiguous_ed). length row = 2"
    and lf': "length (vend_frequency (vend ambiguous_ed))
               = length (raw_transmit_duration_nominal ambiguous_ed)"
    and lp': "length (vend_pulse_length (vend ambiguous_ed))
               = length (raw_transmit_duration_nominal ambiguous_ed)"
    and sa': "vend_sa_correction (vend ambiguous_ed) = Some ?sat"
    and ls': "length ?sat = length (raw_transmit_duration_nominal ambiguous_ed)"
    and lr': "\<forall>i<length ?u. length (?sat ! i) = length (vend_pulse_length (vend ambiguous_ed) ! i)"
    by (simp_all add: sa_ed_fields sa_vend_def All_less_Suc)
  have many: "length (matches 200 (vend_pulse_length (vend ambiguous_ed) ! 1)) \<noteq> 1"
    by (simp add: sa_ed_fields sa_vend_def sa_matches_simps)
  have no: "\<forall>r. calc_sa_correction False ambiguous_ed \<noteq> Inr r"
    using calc_sa_correction_matching[OF n' lu' const' rect' lf' lp' sa' ls' lr', of 0 1 False] many
    by simp
  have m0: "0 \<in> set (matches (100 + 1 / 10 ^ 7) [100, 300])"
    using calc_sa_correction_matching[OF n lu const rect lf lp sa ls lr, of 0 0 False]
    by (simp add: plt)
  show ?thesis
    using n ok many no m0 sa plt by (simp add: sa_ed_fields sa_matches_simps)
qed

text \<open>
  A dataset with a single channel: the squeezed pulse length is a zero-dimensional array,
  and line 187 indexes it.
\<close>

lemma calc_sa_correction_single_channel:
  assumes a: "raw_transmit_duration_nominal ed = [row]" and c: "set row = {u}"
    and f: "length (vend_frequency (vend ed)) = 1"
    and p: "vend_pulse_length (vend ed) = [tbl]"
    and s: "vend_sa_correction (vend ed) = Some sat"
  shows "calc_sa_correction ragged_ok ed = Inl (IndexError ''too many indices for array'')"
proof -
  have n0: "0 < length [row]" by simp
  have lu: "length [u] = length [row]" by simp
  have const: "\<forall>i<length [row]. set ([row] ! i) = {[u] ! i}" using c by simp
  have rect: "\<forall>r\<in>set [row]. length r = length row" by simp
  have un: "np_unique_axis1 [row] = [[u]]"
    by (rule np_unique_axis1_constant[OF n0 lu const rect])
  have sq: "squeeze_cols (Suc 0) [[u]] = A0 u" by (simp add: squeeze_cols_def)
  show ?thesis
    unfolding calc_sa_correction_def Let_def
    using s f by (simp add: a p un sq match_index_def nd_index_def)
qed

end
